theory Spec2Isabelle
  imports Complex_Main "HOL-Library.Multiset"
begin

section \<open>Data model (app/common.py)\<close>

text \<open>
  Identifiers of type \<^verbatim>\<open>uuid.UUID\<close> are natural numbers, \<^verbatim>\<open>datetime\<close> values and the
  wall clock (\<^verbatim>\<open>time.time()\<close>) are reals, Python's unbounded \<^verbatim>\<open>int\<close> is \<^typ>\<open>int\<close>.
  Several classes of the source share field names (\<^verbatim>\<open>price\<close>, \<^verbatim>\<open>status\<close>, ...); every
  record field carries a short prefix naming its class.
\<close>

type_synonym uuid = nat
type_synonym datetime = real

record Ticket =
  t_id :: int
  t_ticket_uid :: uuid
  t_username :: string
  t_flight_number :: string
  t_price :: int
  t_status :: string

record Airport =
  a_id :: int
  a_name :: string
  a_city :: string
  a_country :: string

text \<open>A row of the \<^verbatim>\<open>flight\<close> table with its two airport relationships resolved.\<close>

record FlightDb =
  f_id :: int
  f_flight_number :: string
  f_datetime :: datetime
  f_from_airport :: Airport
  f_to_airport :: Airport
  f_price :: int

record Privilege =
  p_id :: int
  p_username :: string
  p_status :: string
  p_balance :: int

record PrivilegeHistory =
  h_id :: int
  h_privilege_id :: int
  h_ticket_uid :: uuid
  h_datetime :: datetime
  h_balance_diff :: int
  h_operation_type :: string

datatype TicketStatus = PAID | CANCELED

datatype PrivilegeStatus = BRONZE | SILVER | GOLD

datatype OperationType = FILL_IN_BALANCE | DEBIT_THE_ACCOUNT

record FlightResponse =
  fr_flightNumber :: string
  fr_fromAirport :: string
  fr_toAirport :: string
  fr_date :: datetime
  fr_price :: int

record PaginationResponse =
  pg_page :: int
  pg_pageSize :: int
  pg_totalElements :: int
  pg_items :: "FlightResponse list"

record TicketResponse =
  tr_ticketUid :: uuid
  tr_flightNumber :: string
  tr_fromAirport :: string
  tr_toAirport :: string
  tr_date :: datetime
  tr_price :: int
  tr_status :: TicketStatus

record TicketPurchaseRequest =
  rq_flightNumber :: string
  rq_price :: int
  rq_paidFromBalance :: bool

record PrivilegeShortInfo =
  ps_balance :: int
  ps_status :: PrivilegeStatus

record TicketPurchaseResponse =
  pr_ticketUid :: uuid
  pr_flightNumber :: string
  pr_fromAirport :: string
  pr_toAirport :: string
  pr_date :: datetime
  pr_price :: int
  pr_paidByMoney :: int
  pr_paidByBonuses :: int
  pr_status :: TicketStatus
  pr_privilege :: PrivilegeShortInfo

record TicketCreateRequest =
  cr_ticketUid :: uuid
  cr_username :: string
  cr_flightNumber :: string
  cr_price :: int

record AddTransactionRequest =
  ar_privilege_id :: int
  ar_ticket_uid :: uuid
  ar_datetime :: datetime
  ar_balance_diff :: int
  ar_operation_type :: string

record UserInfoResponse =
  ui_tickets :: "TicketResponse list"
  ui_privilege :: PrivilegeShortInfo

record ErrorDescription =
  ed_field :: string
  ed_error :: string

record ValidationErrorResponse =
  ve_message :: string
  ve_errors :: "ErrorDescription list"

text \<open>
  The enumerations are \<^verbatim>\<open>str\<close> enums: pydantic accepts exactly the member values and
  rejects every other string with a ValidationError.
\<close>

definition TicketStatus_validate :: "string \<Rightarrow> TicketStatus option" where
  "TicketStatus_validate s =
     (if s = ''PAID'' then Some PAID else if s = ''CANCELED'' then Some CANCELED else None)"

definition PrivilegeStatus_validate :: "string \<Rightarrow> PrivilegeStatus option" where
  "PrivilegeStatus_validate s =
     (if s = ''BRONZE'' then Some BRONZE else if s = ''SILVER'' then Some SILVER
      else if s = ''GOLD'' then Some GOLD else None)"

definition OperationType_validate :: "string \<Rightarrow> OperationType option" where
  "OperationType_validate s =
     (if s = ''FILL_IN_BALANCE'' then Some FILL_IN_BALANCE
      else if s = ''DEBIT_THE_ACCOUNT'' then Some DEBIT_THE_ACCOUNT else None)"

section \<open>Exceptions, HTTP messages and the world\<close>

text \<open>Every exception the modelled code can raise is a value; a computation returns
  \<open>Inl\<close> of the exception or \<open>Inr\<close> of its result, next to the updated world.\<close>

datatype fault =
    CircuitOpenException string
  | HTTPError nat
  | ConnectionError
  | ValidationError string
  | AttributeError string
  | TypeError
  | ValueError

datatype request =
    GetFlights "int option" "int option"
  | GetFlight string
  | GetUserTickets string
  | GetTicket uuid
  | DeleteTicket uuid
  | PostTicket TicketCreateRequest
  | GetPrivilege string
  | GetHistory string
  | GetTransaction string uuid
  | PostTransaction string AddTransactionRequest
  | DeleteTransaction string uuid
  | GetHealth string

datatype body =
    NoBody
  | Detail string
  | FlightBody FlightResponse
  | PageBody PaginationResponse
  | TicketBody Ticket
  | TicketsBody "Ticket list"
  | PrivilegeBody Privilege
  | HistoryBody "PrivilegeHistory list"
  | TransactionBody PrivilegeHistory
  | StatusBody string

type_synonym response = "nat \<times> body"

datatype cb_state = CLOSED | OPEN | HALF_OPEN

record CircuitBreaker =
  service_name :: string
  state :: cb_state
  failure_count :: nat
  last_failure_timestamp :: real
  failure_threshold :: nat
  recovery_timeout :: real

text \<open>A request that does not reach its collaborator: the connection fails, or the
  collaborator answers 500 without doing anything.\<close>

datatype net_fault = Unreachable | ServerError

text \<open>
  The world holds everything outside the gateway's handlers: the clock, the source of random
  identifiers (\<open>rand\<close> at position \<open>draws\<close>), the plan of network faults (indexed by the number of
  requests sent so far), the log of requests sent, the breakers by service name, and the
  tables of the three collaborators.
\<close>

record world =
  clock :: real
  rand :: "nat \<Rightarrow> uuid"
  draws :: nat
  outage :: "nat \<Rightarrow> net_fault option"
  net_log :: "request list"
  breakers :: "string \<Rightarrow> CircuitBreaker option"
  flight_db :: "FlightDb list"
  ticket_db :: "Ticket list"
  ticket_seq :: int
  privilege_db :: "Privilege list"
  history_db :: "PrivilegeHistory list"
  history_seq :: int

type_synonym 'a comp = "world \<Rightarrow> (fault + 'a) \<times> world"

definition then_do :: "'a comp \<Rightarrow> ('a \<Rightarrow> 'b comp) \<Rightarrow> 'b comp" where
  "then_do m f w = (case m w of (Inl e, w') \<Rightarrow> (Inl e, w') | (Inr x, w') \<Rightarrow> f x w')"

definition return :: "'a \<Rightarrow> 'a comp" where
  "return x w = (Inr x, w)"

definition raise :: "fault \<Rightarrow> 'a comp" where
  "raise e w = (Inl e, w)"

definition uuid4 :: "uuid comp" where
  "uuid4 w = (Inr (rand w (draws w)), w\<lparr>draws := draws w + 1\<rparr>)"

definition datetime_now :: "datetime comp" where
  "datetime_now w = (Inr (clock w), w)"

text \<open>\<^verbatim>\<open>time.sleep\<close> raises ValueError on a negative length.\<close>

definition sleep :: "real \<Rightarrow> unit comp" where
  "sleep secs w = (if secs < 0 then (Inl ValueError, w) else (Inr (), w\<lparr>clock := clock w + secs\<rparr>))"

section \<open>Flights service (app/flights/main.py)\<close>

definition flight_to_response :: "FlightDb \<Rightarrow> FlightResponse" where
  "flight_to_response flight_record =
     \<lparr>fr_flightNumber = f_flight_number flight_record,
      fr_fromAirport = a_city (f_from_airport flight_record) @ '' '' @ a_name (f_from_airport flight_record),
      fr_toAirport = a_city (f_to_airport flight_record) @ '' '' @ a_name (f_to_airport flight_record),
      fr_date = f_datetime flight_record,
      fr_price = f_price flight_record\<rparr>"

text \<open>
  The handler reads the query parameters \<^verbatim>\<open>page\<close> (default 1, at least 1) and
  \<^verbatim>\<open>page_size\<close> (default 10); the gateway's client sends \<^verbatim>\<open>page\<close> and \<^verbatim>\<open>size\<close>, so
  \<^verbatim>\<open>page_size\<close> is always the default. A page below 1 is rejected with 422.
\<close>

definition flights_get_all_flights :: "int option \<Rightarrow> world \<Rightarrow> response \<times> world" where
  "flights_get_all_flights page_param w =
     (let page = (case page_param of None \<Rightarrow> 1 | Some p \<Rightarrow> p); page_size = 10 in
      if page < 1 then ((422, Detail ''page''), w)
      else
        let offset_value = (page - 1) * page_size;
            total_count = int (length (flight_db w));
            flight_records = take (nat page_size) (drop (nat offset_value) (flight_db w));
            response_items = map flight_to_response flight_records
        in ((200, PageBody \<lparr>pg_page = page, pg_pageSize = page_size,
                             pg_totalElements = total_count, pg_items = response_items\<rparr>), w))"

definition flights_get_flight_by_number :: "string \<Rightarrow> world \<Rightarrow> response \<times> world" where
  "flights_get_flight_by_number flight_number w =
     (case find (\<lambda>f. f_flight_number f = flight_number) (flight_db w) of
        None \<Rightarrow> ((404, Detail ''Flight not found''), w)
      | Some flight_record \<Rightarrow> ((200, FlightBody (flight_to_response flight_record)), w))"

section \<open>Tickets service (app/tickets/main.py)\<close>

definition tickets_get_user_tickets :: "string \<Rightarrow> world \<Rightarrow> response \<times> world" where
  "tickets_get_user_tickets username w =
     ((200, TicketsBody (filter (\<lambda>t. t_username t = username) (ticket_db w))), w)"

definition tickets_get_ticket_details :: "uuid \<Rightarrow> world \<Rightarrow> response \<times> world" where
  "tickets_get_ticket_details ticket_uid w =
     (case find (\<lambda>t. t_ticket_uid t = ticket_uid) (ticket_db w) of
        None \<Rightarrow> ((404, Detail ''Ticket not found''), w)
      | Some ticket_record \<Rightarrow> ((200, TicketBody ticket_record), w))"

definition tickets_create_new_ticket :: "TicketCreateRequest \<Rightarrow> world \<Rightarrow> response \<times> world" where
  "tickets_create_new_ticket request w =
     (case find (\<lambda>t. t_ticket_uid t = cr_ticketUid request) (ticket_db w) of
        Some existing_ticket \<Rightarrow> ((403, Detail ''Ticket with this UUID already exists''), w)
      | None \<Rightarrow>
          let ticket_entry = \<lparr>t_id = ticket_seq w,
                              t_ticket_uid = cr_ticketUid request,
                              t_username = cr_username request,
                              t_flight_number = cr_flightNumber request,
                              t_price = cr_price request,
                              t_status = ''PAID''\<rparr>
          in ((201, NoBody),
              w\<lparr>ticket_db := ticket_db w @ [ticket_entry], ticket_seq := ticket_seq w + 1\<rparr>))"

definition tickets_remove_ticket :: "uuid \<Rightarrow> world \<Rightarrow> response \<times> world" where
  "tickets_remove_ticket ticket_uid w =
     (case find (\<lambda>t. t_ticket_uid t = ticket_uid) (ticket_db w) of
        None \<Rightarrow> ((404, Detail ''Ticket not found''), w)
      | Some ticket_record \<Rightarrow> ((204, NoBody), w\<lparr>ticket_db := remove1 ticket_record (ticket_db w)\<rparr>))"

section \<open>Loyalty ledger service\<close>

text \<open>
  Modelled from the spec: the loyalty ledger store (\<^verbatim>\<open>app/bonus/main.py\<close>) is not among the
  sources; only its tests and its client are. Its five operations follow the data model of
  the specification and the status codes of \<^verbatim>\<open>app/bonus/test.py\<close>: an account or a ledger entry
  that does not exist is answered with 404; an entry is appended with 201 and moves the
  balance up (FILL_IN_BALANCE) or down (DEBIT_THE_ACCOUNT) by its amount; an unknown operation
  type is rejected with 400; deleting an entry answers 204, removes that one entry and takes
  its effect on the balance back.
\<close>

definition signed_diff :: "PrivilegeHistory \<Rightarrow> int" where
  "signed_diff h =
     (if h_operation_type h = ''FILL_IN_BALANCE'' then h_balance_diff h else - h_balance_diff h)"

definition add_balance :: "int \<Rightarrow> int \<Rightarrow> Privilege list \<Rightarrow> Privilege list" where
  "add_balance pid d ps = map (\<lambda>p. if p_id p = pid then p\<lparr>p_balance := p_balance p + d\<rparr> else p) ps"

definition bonus_get_privilege :: "string \<Rightarrow> world \<Rightarrow> response \<times> world" where
  "bonus_get_privilege username w =
     (case find (\<lambda>p. p_username p = username) (privilege_db w) of
        None \<Rightarrow> ((404, Detail ''Privilege not found''), w)
      | Some account \<Rightarrow> ((200, PrivilegeBody account), w))"

definition bonus_get_history :: "string \<Rightarrow> world \<Rightarrow> response \<times> world" where
  "bonus_get_history username w =
     (case find (\<lambda>p. p_username p = username) (privilege_db w) of
        None \<Rightarrow> ((404, Detail ''Privilege not found''), w)
      | Some account \<Rightarrow>
          ((200, HistoryBody (filter (\<lambda>h. h_privilege_id h = p_id account) (history_db w))), w))"

definition find_transaction :: "string \<Rightarrow> uuid \<Rightarrow> world \<Rightarrow> PrivilegeHistory option" where
  "find_transaction username ticket_uid w =
     (case find (\<lambda>p. p_username p = username) (privilege_db w) of
        None \<Rightarrow> None
      | Some account \<Rightarrow>
          find (\<lambda>h. h_privilege_id h = p_id account \<and> h_ticket_uid h = ticket_uid) (history_db w))"

definition bonus_get_transaction :: "string \<Rightarrow> uuid \<Rightarrow> world \<Rightarrow> response \<times> world" where
  "bonus_get_transaction username ticket_uid w =
     (case find_transaction username ticket_uid w of
        None \<Rightarrow> ((404, Detail ''Transaction not found''), w)
      | Some entry \<Rightarrow> ((200, TransactionBody entry), w))"

definition bonus_add_transaction :: "string \<Rightarrow> AddTransactionRequest \<Rightarrow> world \<Rightarrow> response \<times> world" where
  "bonus_add_transaction username request w =
     (case find (\<lambda>p. p_username p = username) (privilege_db w) of
        None \<Rightarrow> ((404, Detail ''Privilege not found''), w)
      | Some account \<Rightarrow>
          (case OperationType_validate (ar_operation_type request) of
             None \<Rightarrow> ((400, Detail ''Unknown operation type''), w)
           | Some operation \<Rightarrow>
               let entry = \<lparr>h_id = history_seq w,
                            h_privilege_id = p_id account,
                            h_ticket_uid = ar_ticket_uid request,
                            h_datetime = ar_datetime request,
                            h_balance_diff = ar_balance_diff request,
                            h_operation_type = ar_operation_type request\<rparr>
               in ((201, NoBody),
                   w\<lparr>history_db := history_db w @ [entry],
                     history_seq := history_seq w + 1,
                     privilege_db := add_balance (p_id account) (signed_diff entry) (privilege_db w)\<rparr>)))"

definition bonus_delete_transaction :: "string \<Rightarrow> uuid \<Rightarrow> world \<Rightarrow> response \<times> world" where
  "bonus_delete_transaction username ticket_uid w =
     (case find_transaction username ticket_uid w of
        None \<Rightarrow> ((404, Detail ''Transaction not found''), w)
      | Some entry \<Rightarrow>
          ((204, NoBody),
           w\<lparr>history_db := remove1 entry (history_db w),
             privilege_db := add_balance (h_privilege_id entry) (- signed_diff entry) (privilege_db w)\<rparr>))"

section \<open>The network\<close>

text \<open>Each of the three services answers \<^verbatim>\<open>GET /manage/health\<close> with 201.\<close>

definition health_check :: "world \<Rightarrow> response \<times> world" where
  "health_check w = ((201, StatusBody ''operational''), w)"

fun serve :: "request \<Rightarrow> world \<Rightarrow> response \<times> world" where
  "serve (GetFlights page page_size) w = flights_get_all_flights page w"
| "serve (GetFlight flight_number) w = flights_get_flight_by_number flight_number w"
| "serve (GetUserTickets username) w = tickets_get_user_tickets username w"
| "serve (GetTicket ticket_uid) w = tickets_get_ticket_details ticket_uid w"
| "serve (DeleteTicket ticket_uid) w = tickets_remove_ticket ticket_uid w"
| "serve (PostTicket request) w = tickets_create_new_ticket request w"
| "serve (GetPrivilege username) w = bonus_get_privilege username w"
| "serve (GetHistory username) w = bonus_get_history username w"
| "serve (GetTransaction username ticket_uid) w = bonus_get_transaction username ticket_uid w"
| "serve (PostTransaction username request) w = bonus_add_transaction username request w"
| "serve (DeleteTransaction username ticket_uid) w = bonus_delete_transaction username ticket_uid w"
| "serve (GetHealth service) w = health_check w"

text \<open>
  \<^verbatim>\<open>requests.get/post/delete\<close>: the request is logged as a network attempt; it then fails to
  connect, is answered 500, or is served by its collaborator, as the fault plan says.
\<close>

definition send :: "request \<Rightarrow> response comp" where
  "send req w =
     (let w1 = w\<lparr>net_log := net_log w @ [req]\<rparr> in
      case outage w (length (net_log w)) of
        Some Unreachable \<Rightarrow> (Inl ConnectionError, w1)
      | Some ServerError \<Rightarrow> (Inr (500, Detail ''Internal Server Error''), w1)
      | None \<Rightarrow> (case serve req w1 of (resp, w2) \<Rightarrow> (Inr resp, w2)))"

text \<open>\<^verbatim>\<open>response.raise_for_status()\<close> raises HTTPError for a status from 400 to 599.\<close>

definition raise_for_status :: "response \<Rightarrow> unit comp" where
  "raise_for_status resp w =
     (if 400 \<le> fst resp \<and> fst resp < 600 then (Inl (HTTPError (fst resp)), w) else (Inr (), w))"

section \<open>Circuit breaker\<close>

text \<open>
  Modelled from the spec: the module \<^verbatim>\<open>circuit_breaker\<close> (class CircuitBreaker and
  CircuitOpenException) is imported by \<^verbatim>\<open>app/services.py\<close> but is not among the sources. The
  state machine follows section 4.1 of the specification. CLOSED: the operation runs; a
  success resets the failure count, a failure increments it and opens the breaker, stamping
  the time, once the count reaches the threshold. OPEN: the operation is not attempted and
  the call fails with CircuitOpenException, unless the recovery timeout has elapsed since
  the stamp; then the breaker becomes HALF_OPEN and the call is a trial. HALF_OPEN: a
  success closes the breaker with count 0, a failure opens it again with a new stamp.
\<close>

definition CircuitBreaker_init :: "string \<Rightarrow> nat \<Rightarrow> real \<Rightarrow> CircuitBreaker" where
  "CircuitBreaker_init service threshold timeout =
     \<lparr>service_name = service, state = CLOSED, failure_count = 0, last_failure_timestamp = 0,
      failure_threshold = threshold, recovery_timeout = timeout\<rparr>"

definition on_success :: "CircuitBreaker \<Rightarrow> CircuitBreaker" where
  "on_success cb = cb\<lparr>state := CLOSED, failure_count := 0\<rparr>"

definition on_failure :: "real \<Rightarrow> CircuitBreaker \<Rightarrow> CircuitBreaker" where
  "on_failure now cb =
     (if state cb = HALF_OPEN then cb\<lparr>state := OPEN, last_failure_timestamp := now\<rparr>
      else if failure_count cb + 1 \<ge> failure_threshold cb
      then cb\<lparr>failure_count := failure_count cb + 1, state := OPEN, last_failure_timestamp := now\<rparr>
      else cb\<lparr>failure_count := failure_count cb + 1\<rparr>)"

text \<open>The operation is run; the breaker records the outcome at the time the operation ended.\<close>

definition attempt :: "CircuitBreaker \<Rightarrow> 'a comp \<Rightarrow> world \<Rightarrow> (fault + 'a) \<times> CircuitBreaker \<times> world" where
  "attempt cb operation w =
     (case operation w of
        (Inr v, w') \<Rightarrow> (Inr v, on_success cb, w')
      | (Inl e, w') \<Rightarrow> (Inl e, on_failure (clock w') cb, w'))"

definition CircuitBreaker_call :: "CircuitBreaker \<Rightarrow> 'a comp \<Rightarrow> world \<Rightarrow> (fault + 'a) \<times> CircuitBreaker \<times> world" where
  "CircuitBreaker_call cb operation w =
     (if state cb = OPEN then
        (if clock w - last_failure_timestamp cb \<ge> recovery_timeout cb
         then attempt (cb\<lparr>state := HALF_OPEN\<rparr>) operation w
         else (Inl (CircuitOpenException (service_name cb)), cb, w))
      else attempt cb operation w)"

section \<open>Service clients (app/services.py)\<close>

text \<open>
  \<^verbatim>\<open>wrap_cb(service)\<close> guards a function with a breaker built as
  \<^verbatim>\<open>CircuitBreaker(service, failure_threshold=1, recovery_timeout=1)\<close>. What the constructor
  does with the name is in the absent module; following the specification, the state of a
  breaker is kept per service name and is created on the first guarded call, so that the
  guarded methods of one client share one breaker.
\<close>

definition breaker_of :: "string \<Rightarrow> world \<Rightarrow> CircuitBreaker" where
  "breaker_of service w =
     (case breakers w service of None \<Rightarrow> CircuitBreaker_init service 1 1 | Some cb \<Rightarrow> cb)"

definition wrap_cb :: "string \<Rightarrow> 'a comp \<Rightarrow> 'a comp" where
  "wrap_cb service fn w =
     (case CircuitBreaker_call (breaker_of service w) fn w of
        (r, cb', w') \<Rightarrow> (r, w'\<lparr>breakers := (breakers w')(service := Some cb')\<rparr>))"

definition Flights_NAME :: string where "Flights_NAME = ''Flights Service''"
definition Tickets_NAME :: string where "Tickets_NAME = ''Ticket Service''"
definition Privileges_NAME :: string where "Privileges_NAME = ''Bonus Service''"

subsection \<open>FlightsService\<close>

definition FlightsService_health_check :: "unit comp" where
  "FlightsService_health_check =
     then_do (send (GetHealth Flights_NAME)) (\<lambda>response. raise_for_status response)"

definition FlightsService_get_all_flights_fn :: "int option \<Rightarrow> int option \<Rightarrow> PaginationResponse comp" where
  "FlightsService_get_all_flights_fn page page_size =
     then_do (send (GetFlights page page_size)) (\<lambda>response.
     then_do (raise_for_status response) (\<lambda>_.
       case snd response of PageBody p \<Rightarrow> return p
                          | _ \<Rightarrow> raise (ValidationError ''PaginationResponse'')))"

definition FlightsService_get_all_flights :: "int option \<Rightarrow> int option \<Rightarrow> PaginationResponse comp" where
  "FlightsService_get_all_flights page page_size =
     wrap_cb Flights_NAME (FlightsService_get_all_flights_fn page page_size)"

definition FlightsService_get_flight_by_number_fn :: "string \<Rightarrow> FlightResponse comp" where
  "FlightsService_get_flight_by_number_fn flight_number =
     then_do (send (GetFlight flight_number)) (\<lambda>response.
     then_do (raise_for_status response) (\<lambda>_.
       case snd response of FlightBody f \<Rightarrow> return f
                          | _ \<Rightarrow> raise (ValidationError ''FlightResponse'')))"

definition FlightsService_get_flight_by_number :: "string \<Rightarrow> FlightResponse comp" where
  "FlightsService_get_flight_by_number flight_number =
     wrap_cb Flights_NAME (FlightsService_get_flight_by_number_fn flight_number)"

definition FlightsService_get_flight_by_number_or_default :: "string \<Rightarrow> FlightResponse comp" where
  "FlightsService_get_flight_by_number_or_default flight_number w =
     (case FlightsService_get_flight_by_number flight_number w of
        (Inl (CircuitOpenException s), w') \<Rightarrow>
          (Inr \<lparr>fr_flightNumber = ''XXX'', fr_fromAirport = ''XXX'', fr_toAirport = ''XXX'',
                fr_date = 1, fr_price = 0\<rparr>, w')
      | (r, w') \<Rightarrow> (r, w'))"

subsection \<open>TicketsService\<close>

definition TicketsService_health_check :: "unit comp" where
  "TicketsService_health_check =
     then_do (send (GetHealth Tickets_NAME)) (\<lambda>response. raise_for_status response)"

definition TicketsService_get_user_tickets_fn :: "string \<Rightarrow> Ticket list comp" where
  "TicketsService_get_user_tickets_fn username =
     then_do (send (GetUserTickets username)) (\<lambda>response.
     then_do (raise_for_status response) (\<lambda>_.
       case snd response of TicketsBody ts \<Rightarrow> return ts
                          | _ \<Rightarrow> raise (ValidationError ''Ticket'')))"

definition TicketsService_get_user_tickets :: "string \<Rightarrow> Ticket list comp" where
  "TicketsService_get_user_tickets username =
     wrap_cb Tickets_NAME (TicketsService_get_user_tickets_fn username)"

definition TicketsService_get_ticket_by_uid_fn :: "uuid \<Rightarrow> Ticket option comp" where
  "TicketsService_get_ticket_by_uid_fn ticket_uid =
     then_do (send (GetTicket ticket_uid)) (\<lambda>response.
       if fst response = 404 then return None
       else then_do (raise_for_status response) (\<lambda>_.
         case snd response of TicketBody t \<Rightarrow> return (Some t)
                            | _ \<Rightarrow> raise (ValidationError ''Ticket'')))"

definition TicketsService_get_ticket_by_uid :: "uuid \<Rightarrow> Ticket option comp" where
  "TicketsService_get_ticket_by_uid ticket_uid =
     wrap_cb Tickets_NAME (TicketsService_get_ticket_by_uid_fn ticket_uid)"

definition TicketsService_remove_ticket :: "uuid \<Rightarrow> unit comp" where
  "TicketsService_remove_ticket ticket_uid =
     then_do (send (DeleteTicket ticket_uid)) (\<lambda>response. raise_for_status response)"

definition TicketsService_create_new_ticket :: "uuid \<Rightarrow> string \<Rightarrow> string \<Rightarrow> int \<Rightarrow> unit comp" where
  "TicketsService_create_new_ticket ticket_uid username flight_number price =
     (let ticket_data = \<lparr>cr_ticketUid = ticket_uid, cr_username = username,
                          cr_flightNumber = flight_number, cr_price = price\<rparr>
      in then_do (send (PostTicket ticket_data)) (\<lambda>response. raise_for_status response))"

subsection \<open>PrivilegesService\<close>

definition PrivilegesService_health_check :: "unit comp" where
  "PrivilegesService_health_check =
     then_do (send (GetHealth Privileges_NAME)) (\<lambda>response. raise_for_status response)"

definition PrivilegesService_get_user_privilege_fn :: "string \<Rightarrow> Privilege option comp" where
  "PrivilegesService_get_user_privilege_fn username =
     then_do (send (GetPrivilege username)) (\<lambda>response.
       if fst response = 404 then return None
       else then_do (raise_for_status response) (\<lambda>_.
         case snd response of PrivilegeBody p \<Rightarrow> return (Some p)
                            | _ \<Rightarrow> raise (ValidationError ''Privilege'')))"

definition PrivilegesService_get_user_privilege :: "string \<Rightarrow> Privilege option comp" where
  "PrivilegesService_get_user_privilege username =
     wrap_cb Privileges_NAME (PrivilegesService_get_user_privilege_fn username)"

definition PrivilegesService_get_user_privilege_history_fn :: "string \<Rightarrow> PrivilegeHistory list comp" where
  "PrivilegesService_get_user_privilege_history_fn username =
     then_do (send (GetHistory username)) (\<lambda>response.
     then_do (raise_for_status response) (\<lambda>_.
       case snd response of HistoryBody hs \<Rightarrow> return hs
                          | _ \<Rightarrow> raise (ValidationError ''PrivilegeHistory'')))"

definition PrivilegesService_get_user_privilege_history :: "string \<Rightarrow> PrivilegeHistory list comp" where
  "PrivilegesService_get_user_privilege_history username =
     wrap_cb Privileges_NAME (PrivilegesService_get_user_privilege_history_fn username)"

definition PrivilegesService_get_user_privilege_transaction_fn :: "string \<Rightarrow> uuid \<Rightarrow> PrivilegeHistory option comp" where
  "PrivilegesService_get_user_privilege_transaction_fn username ticket_uid =
     then_do (send (GetTransaction username ticket_uid)) (\<lambda>response.
       if fst response = 404 then return None
       else then_do (raise_for_status response) (\<lambda>_.
         case snd response of TransactionBody h \<Rightarrow> return (Some h)
                            | _ \<Rightarrow> raise (ValidationError ''PrivilegeHistory'')))"

definition PrivilegesService_get_user_privilege_transaction :: "string \<Rightarrow> uuid \<Rightarrow> PrivilegeHistory option comp" where
  "PrivilegesService_get_user_privilege_transaction username ticket_uid =
     wrap_cb Privileges_NAME (PrivilegesService_get_user_privilege_transaction_fn username ticket_uid)"

definition PrivilegesService_add_privilege_transaction :: "string \<Rightarrow> AddTransactionRequest \<Rightarrow> unit comp" where
  "PrivilegesService_add_privilege_transaction username transaction_data =
     then_do (send (PostTransaction username transaction_data)) (\<lambda>response. raise_for_status response)"

definition PrivilegesService_revert_transaction :: "string \<Rightarrow> uuid \<Rightarrow> unit comp" where
  "PrivilegesService_revert_transaction username ticket_uid =
     then_do (send (DeleteTransaction username ticket_uid)) (\<lambda>response. raise_for_status response)"

text \<open>
  The attributes of a PrivilegesService object that the class and its constructor define, by
  name: the methods, the constant \<^verbatim>\<open>NAME\<close> and the field \<^verbatim>\<open>base_url\<close>. (Every object also
  has the attributes of \<^verbatim>\<open>object\<close>, whose names begin and end with two underscores.)
  Looking up any other name raises AttributeError.
\<close>

datatype privileges_method =
    M_data_attribute
  | M_health_check
  | M_get_user_privilege
  | M_get_user_privilege_history
  | M_get_user_privilege_transaction
  | M_add_privilege_transaction
  | M_revert_transaction

definition PrivilegesService_getattr :: "string \<Rightarrow> privileges_method option" where
  "PrivilegesService_getattr name =
     map_of [(''NAME'', M_data_attribute),
             (''base_url'', M_data_attribute),
             (''health_check'', M_health_check),
             (''get_user_privilege'', M_get_user_privilege),
             (''get_user_privilege_history'', M_get_user_privilege_history),
             (''get_user_privilege_transaction'', M_get_user_privilege_transaction),
             (''add_privilege_transaction'', M_add_privilege_transaction),
             (''revert_transaction'', M_revert_transaction)] name"

section \<open>Gateway (app/gateway/main.py)\<close>

text \<open>What a handler of the gateway returns: a JSON error response with its status
  code, one of the response models, or nothing (status 204).\<close>

datatype gw_result =
    JSONResponse string nat
  | ValidationFailed ValidationErrorResponse
  | Purchased TicketPurchaseResponse
  | UserInfo UserInfoResponse
  | NoContent

definition create_error_response :: "string \<Rightarrow> nat \<Rightarrow> gw_result" where
  "create_error_response message status_code = JSONResponse message status_code"

text \<open>A pydantic model object is truthy; \<^verbatim>\<open>if not flight_info\<close> tests such an object.\<close>

definition model_truthy :: "FlightResponse \<Rightarrow> bool" where
  "model_truthy m = True"

text \<open>\<^verbatim>\<open>try: body except CircuitOpenException: handler\<close>\<close>

definition try_except_CircuitOpen :: "'a comp \<Rightarrow> 'a comp \<Rightarrow> 'a comp" where
  "try_except_CircuitOpen body handler w =
     (case body w of
        (Inl (CircuitOpenException s), w') \<Rightarrow> handler w'
      | (r, w') \<Rightarrow> (r, w'))"

definition convert_ticket_to_response :: "Ticket \<Rightarrow> TicketResponse comp" where
  "convert_ticket_to_response ticket_data =
     then_do (FlightsService_get_flight_by_number (t_flight_number ticket_data)) (\<lambda>flight_details.
       case TicketStatus_validate (t_status ticket_data) of
         None \<Rightarrow> raise (ValidationError ''TicketResponse'')
       | Some st \<Rightarrow>
           return \<lparr>tr_ticketUid = t_ticket_uid ticket_data,
                   tr_flightNumber = t_flight_number ticket_data,
                   tr_fromAirport = fr_fromAirport flight_details,
                   tr_toAirport = fr_toAirport flight_details,
                   tr_date = fr_date flight_details,
                   tr_price = t_price ticket_data,
                   tr_status = st\<rparr>)"

text \<open>The loop \<^verbatim>\<open>for ticket in user_tickets: formatted_tickets.append(...)\<close>.\<close>

primrec convert_all :: "Ticket list \<Rightarrow> TicketResponse list \<Rightarrow> TicketResponse list comp" where
  "convert_all [] formatted_tickets = return formatted_tickets"
| "convert_all (ticket # user_tickets) formatted_tickets =
     then_do (convert_ticket_to_response ticket) (\<lambda>r.
       convert_all user_tickets (formatted_tickets @ [r]))"

text \<open>
  The constructor of UserInfoResponse validates its arguments against the declaration
  \<^verbatim>\<open>privilege: PrivilegeShortInfo\<close> of \<^verbatim>\<open>app/common.py\<close>: a PrivilegeShortInfo object is
  accepted, a string is rejected with a ValidationError.
\<close>

datatype privilege_arg = PyStr string | PyShortInfo PrivilegeShortInfo

definition UserInfoResponse_init :: "TicketResponse list \<Rightarrow> privilege_arg \<Rightarrow> UserInfoResponse comp" where
  "UserInfoResponse_init tickets privilege =
     (case privilege of
        PyShortInfo info \<Rightarrow> return \<lparr>ui_tickets = tickets, ui_privilege = info\<rparr>
      | PyStr s \<Rightarrow> raise (ValidationError ''UserInfoResponse.privilege''))"

definition PrivilegeShortInfo_init :: "int \<Rightarrow> string \<Rightarrow> PrivilegeShortInfo comp" where
  "PrivilegeShortInfo_init balance status =
     (case PrivilegeStatus_validate status of
        None \<Rightarrow> raise (ValidationError ''PrivilegeShortInfo.status'')
      | Some st \<Rightarrow> return \<lparr>ps_balance = balance, ps_status = st\<rparr>)"

text \<open>The part of \<^verbatim>\<open>get_current_user_profile\<close> after the account lookup.\<close>

definition profile_after_privilege :: "string \<Rightarrow> Privilege option \<Rightarrow> gw_result comp" where
  "profile_after_privilege x_user_name user_privilege =
     then_do
       (try_except_CircuitOpen
          (then_do (TicketsService_get_user_tickets x_user_name) (\<lambda>user_tickets.
             convert_all user_tickets []))
          (return []))
       (\<lambda>formatted_tickets.
          case user_privilege of
            None \<Rightarrow>
              then_do (UserInfoResponse_init formatted_tickets (PyStr [])) (\<lambda>r. return (UserInfo r))
          | Some up \<Rightarrow>
              then_do (PrivilegeShortInfo_init (p_balance up) (p_status up)) (\<lambda>info.
              then_do (UserInfoResponse_init formatted_tickets (PyShortInfo info)) (\<lambda>r.
                return (UserInfo r))))"

definition get_current_user_profile :: "string \<Rightarrow> gw_result comp" where
  "get_current_user_profile x_user_name w =
     (case PrivilegesService_get_user_privilege x_user_name w of
        (Inr None, w1) \<Rightarrow> (Inr (create_error_response ''User account not found'' 404), w1)
      | (Inr (Some user_privilege), w1) \<Rightarrow> profile_after_privilege x_user_name (Some user_privilege) w1
      | (Inl (CircuitOpenException s), w1) \<Rightarrow> profile_after_privilege x_user_name None w1
      | (Inl e, w1) \<Rightarrow> (Inl e, w1))"

text \<open>The ledger step of the purchase: it returns \<open>(cash_payment, bonus_payment)\<close>.\<close>

definition purchase_ledger_step ::
  "TicketPurchaseRequest \<Rightarrow> string \<Rightarrow> FlightResponse \<Rightarrow> Privilege \<Rightarrow> datetime \<Rightarrow> uuid \<Rightarrow> (int \<times> int) comp" where
  "purchase_ledger_step purchase_request x_user_name flight_info user_privilege current_time new_ticket_id =
     (let cash_payment = fr_price flight_info; bonus_payment = 0 in
      if rq_paidFromBalance purchase_request then
        (let bonus_amount = min (p_balance user_privilege) (fr_price flight_info);
             bonus_payment = bonus_amount;
             cash_payment = fr_price flight_info - bonus_payment
         in if bonus_payment > 0 then
              then_do (PrivilegesService_add_privilege_transaction x_user_name
                         \<lparr>ar_privilege_id = p_id user_privilege,
                          ar_ticket_uid = new_ticket_id,
                          ar_datetime = current_time,
                          ar_balance_diff = bonus_payment,
                          ar_operation_type = ''DEBIT_THE_ACCOUNT''\<rparr>)
                (\<lambda>_. return (cash_payment, bonus_payment))
            else return (cash_payment, bonus_payment))
      else
        then_do (PrivilegesService_add_privilege_transaction x_user_name
                   \<lparr>ar_privilege_id = p_id user_privilege,
                    ar_ticket_uid = new_ticket_id,
                    ar_datetime = current_time,
                    ar_balance_diff = cash_payment div 10,
                    ar_operation_type = ''FILL_IN_BALANCE''\<rparr>)
          (\<lambda>_. return (cash_payment, bonus_payment)))"

text \<open>The construction of the response: \<^verbatim>\<open>updated_privilege.balance\<close> raises AttributeError
  when the second account lookup found nothing.\<close>

definition purchase_response ::
  "TicketPurchaseRequest \<Rightarrow> FlightResponse \<Rightarrow> datetime \<Rightarrow> uuid \<Rightarrow> int \<Rightarrow> int \<Rightarrow> Privilege option \<Rightarrow> gw_result comp" where
  "purchase_response purchase_request flight_info current_time new_ticket_id cash_payment bonus_payment updated_privilege =
     (case updated_privilege of
        None \<Rightarrow> raise (AttributeError ''balance'')
      | Some up \<Rightarrow>
          then_do (PrivilegeShortInfo_init (p_balance up) (p_status up)) (\<lambda>info.
            return (Purchased
              \<lparr>pr_ticketUid = new_ticket_id,
               pr_flightNumber = rq_flightNumber purchase_request,
               pr_fromAirport = fr_fromAirport flight_info,
               pr_toAirport = fr_toAirport flight_info,
               pr_date = current_time,
               pr_price = fr_price flight_info,
               pr_paidByMoney = cash_payment,
               pr_paidByBonuses = bonus_payment,
               pr_status = PAID,
               pr_privilege = info\<rparr>)))"

text \<open>The purchase from the point where the flight and the account are known.\<close>

definition purchase_after_lookup ::
  "TicketPurchaseRequest \<Rightarrow> string \<Rightarrow> FlightResponse \<Rightarrow> Privilege \<Rightarrow> gw_result comp" where
  "purchase_after_lookup purchase_request x_user_name flight_info user_privilege =
     then_do datetime_now (\<lambda>current_time.
     then_do uuid4 (\<lambda>new_ticket_id.
     then_do (purchase_ledger_step purchase_request x_user_name flight_info user_privilege
                current_time new_ticket_id) (\<lambda>(cash_payment, bonus_payment).
     then_do (PrivilegesService_get_user_privilege x_user_name) (\<lambda>updated_privilege.
     then_do (TicketsService_create_new_ticket new_ticket_id x_user_name
                (fr_flightNumber flight_info) cash_payment) (\<lambda>_.
       purchase_response purchase_request flight_info current_time new_ticket_id
         cash_payment bonus_payment updated_privilege)))))"

definition purchase_ticket :: "TicketPurchaseRequest \<Rightarrow> string \<Rightarrow> gw_result comp" where
  "purchase_ticket purchase_request x_user_name =
     then_do (FlightsService_get_flight_by_number (rq_flightNumber purchase_request)) (\<lambda>flight_info.
       if \<not> model_truthy flight_info then
         return (ValidationFailed \<lparr>ve_message = ''Data validation failed'', ve_errors = []\<rparr>)
       else
         then_do (PrivilegesService_get_user_privilege x_user_name) (\<lambda>user_privilege.
           case user_privilege of
             None \<Rightarrow> return (ValidationFailed \<lparr>ve_message = ''User does not exist'', ve_errors = []\<rparr>)
           | Some up \<Rightarrow> purchase_after_lookup purchase_request x_user_name flight_info up))"

definition cancel_ticket :: "uuid \<Rightarrow> string \<Rightarrow> gw_result comp" where
  "cancel_ticket ticket_uid x_user_name =
     then_do (TicketsService_get_ticket_by_uid ticket_uid) (\<lambda>ticket_info.
       case ticket_info of
         None \<Rightarrow> return (create_error_response ''Ticket does not exist'' 404)
       | Some ticket \<Rightarrow>
           if t_username ticket \<noteq> x_user_name then
             return (create_error_response ''Ticket does not belong to user'' 403)
           else if t_status ticket \<noteq> ''PAID'' then
             return (create_error_response ''Ticket cannot be cancelled'' 400)
           else
             then_do (PrivilegesService_get_user_privilege_transaction x_user_name ticket_uid)
               (\<lambda>transaction_record.
             then_do (case transaction_record of
                        None \<Rightarrow> return ()
                      | Some record \<Rightarrow> PrivilegesService_revert_transaction x_user_name ticket_uid)
               (\<lambda>_.
             then_do (TicketsService_remove_ticket ticket_uid) (\<lambda>_. return NoContent))))"

subsection \<open>The retrying cancel\<close>

text \<open>
  \<^verbatim>\<open>cancel_with_retry\<close> calls two methods on the privileges client by the names
  \<^verbatim>\<open>get_user_privelge_transaction\<close> and \<^verbatim>\<open>rollback_transaction\<close>. The names are resolved
  against the class as Python does; a name that resolves to another method than the one
  with this signature and meaning is a TypeError here. The module \<^verbatim>\<open>time\<close> is taken to be
  in scope through the star import of the breaker module.
\<close>

definition call_lookup_method :: "string \<Rightarrow> string \<Rightarrow> uuid \<Rightarrow> PrivilegeHistory option comp" where
  "call_lookup_method name x_user_name ticket_uid =
     (case PrivilegesService_getattr name of
        None \<Rightarrow> raise (AttributeError name)
      | Some M_get_user_privilege_transaction \<Rightarrow>
          PrivilegesService_get_user_privilege_transaction x_user_name ticket_uid
      | Some _ \<Rightarrow> raise TypeError)"

definition call_delete_method :: "string \<Rightarrow> string \<Rightarrow> uuid \<Rightarrow> unit comp" where
  "call_delete_method name x_user_name ticket_uid =
     (case PrivilegesService_getattr name of
        None \<Rightarrow> raise (AttributeError name)
      | Some M_revert_transaction \<Rightarrow> PrivilegesService_revert_transaction x_user_name ticket_uid
      | Some _ \<Rightarrow> raise TypeError)"

text \<open>The body of the \<^verbatim>\<open>try\<close>: it returns whether the loop is left by \<^verbatim>\<open>break\<close>.\<close>

definition retry_body :: "string \<Rightarrow> uuid \<Rightarrow> bool comp" where
  "retry_body x_user_name ticket_uid =
     then_do (call_lookup_method ''get_user_privelge_transaction'' x_user_name ticket_uid) (\<lambda>found.
       case found of
         None \<Rightarrow> return False
       | Some record \<Rightarrow>
           then_do (call_delete_method ''rollback_transaction'' x_user_name ticket_uid) (\<lambda>_.
             return True))"

text \<open>How one round of the loop ends: by \<^verbatim>\<open>break\<close>, by going round again at once, by
  going round again after the sleep of the \<^verbatim>\<open>except\<close> clause, or by an exception that
  leaves the function.\<close>

datatype loop_action = Break | Again | SleepAgain | Fail fault

definition retry_step :: "string \<Rightarrow> uuid \<Rightarrow> world \<Rightarrow> loop_action \<times> world" where
  "retry_step x_user_name ticket_uid w =
     (case retry_body x_user_name ticket_uid w of
        (Inr True, w1) \<Rightarrow> (Break, w1)
      | (Inr False, w1) \<Rightarrow> (Again, w1)
      | (Inl (CircuitOpenException s), w1) \<Rightarrow> (SleepAgain, w1)
      | (Inl e, w1) \<Rightarrow> (Fail e, w1))"

text \<open>The loop \<^verbatim>\<open>while time.time() < deadline\<close>; a run that never leaves it is \<open>None\<close>.\<close>

partial_function (option) retry_loop :: "string \<Rightarrow> uuid \<Rightarrow> real \<Rightarrow> real \<Rightarrow> world \<Rightarrow> ((fault + unit) \<times> world) option" where
  "retry_loop x_user_name ticket_uid deadline interval w =
     (if clock w < deadline then
        (case retry_step x_user_name ticket_uid w of
           (Break, w1) \<Rightarrow> Some (Inr (), w1)
         | (Again, w1) \<Rightarrow> retry_loop x_user_name ticket_uid deadline interval w1
         | (SleepAgain, w1) \<Rightarrow>
             (case sleep interval w1 of
                (Inl e, w2) \<Rightarrow> Some (Inl e, w2)
              | (Inr u, w2) \<Rightarrow> retry_loop x_user_name ticket_uid deadline interval w2)
         | (Fail e, w1) \<Rightarrow> Some (Inl e, w1))
      else Some (Inr (), w))"

definition cancel_with_retry :: "string \<Rightarrow> uuid \<Rightarrow> int \<Rightarrow> int \<Rightarrow> world \<Rightarrow> ((fault + unit) \<times> world) option" where
  "cancel_with_retry x_user_name ticket_uid max_seconds interval w =
     (let deadline = clock w + of_int max_seconds
      in retry_loop x_user_name ticket_uid deadline (of_int interval) w)"

section \<open>Observations on runs\<close>

text \<open>The breaker registered for a service is open and its recovery timeout has not
  elapsed: a guarded call made now is refused.\<close>

definition breaker_open :: "string \<Rightarrow> world \<Rightarrow> bool" where
  "breaker_open service w =
     (case breakers w service of
        None \<Rightarrow> False
      | Some cb \<Rightarrow> state cb = OPEN \<and> service_name cb = service
                   \<and> clock w - last_failure_timestamp cb < recovery_timeout cb)"

text \<open>The breaker registered for a service, if any, carries the deployed policy.\<close>

definition deployed_policy :: "string \<Rightarrow> world \<Rightarrow> bool" where
  "deployed_policy service w =
     (case breakers w service of
        None \<Rightarrow> True
      | Some cb \<Rightarrow> service_name cb = service \<and> failure_threshold cb = 1 \<and> recovery_timeout cb = 1)"

text \<open>The requests sent between two worlds of one run.\<close>

definition issued :: "world \<Rightarrow> world \<Rightarrow> request list" where
  "issued w w' = drop (length (net_log w)) (net_log w')"

fun is_ticket_write :: "request \<Rightarrow> bool" where
  "is_ticket_write (PostTicket request) = True"
| "is_ticket_write (DeleteTicket ticket_uid) = True"
| "is_ticket_write other = False"

fun is_ledger_append :: "request \<Rightarrow> bool" where
  "is_ledger_append (PostTransaction username request) = True"
| "is_ledger_append other = False"

fun is_ledger_delete :: "request \<Rightarrow> bool" where
  "is_ledger_delete (DeleteTransaction username ticket_uid) = True"
| "is_ledger_delete other = False"

text \<open>
  The payment split as the specification states it, for comparison with what
  \<^verbatim>\<open>purchase_ticket\<close> computes: the bonus part, the cash part, and the ledger request (none
  or one) that goes with them.
\<close>

definition claimed_bonus :: "bool \<Rightarrow> int \<Rightarrow> int \<Rightarrow> int" where
  "claimed_bonus from_balance balance price = (if from_balance then min balance price else 0)"

definition claimed_cash :: "bool \<Rightarrow> int \<Rightarrow> int \<Rightarrow> int" where
  "claimed_cash from_balance balance price = price - claimed_bonus from_balance balance price"

definition claimed_ledger_request ::
  "bool \<Rightarrow> Privilege \<Rightarrow> int \<Rightarrow> uuid \<Rightarrow> datetime \<Rightarrow> AddTransactionRequest list" where
  "claimed_ledger_request from_balance account price tid now =
     (if from_balance then
        (if claimed_bonus from_balance (p_balance account) price > 0 then
           [\<lparr>ar_privilege_id = p_id account, ar_ticket_uid = tid, ar_datetime = now,
             ar_balance_diff = claimed_bonus from_balance (p_balance account) price,
             ar_operation_type = ''DEBIT_THE_ACCOUNT''\<rparr>]
         else [])
      else
        [\<lparr>ar_privilege_id = p_id account, ar_ticket_uid = tid, ar_datetime = now,
          ar_balance_diff = claimed_cash from_balance (p_balance account) price div 10,
          ar_operation_type = ''FILL_IN_BALANCE''\<rparr>])"

text \<open>The ledger entry the store keeps for an append request, under a given row number and
  account.\<close>

definition stored_entry :: "int \<Rightarrow> int \<Rightarrow> AddTransactionRequest \<Rightarrow> PrivilegeHistory" where
  "stored_entry hid pid a =
     \<lparr>h_id = hid, h_privilege_id = pid, h_ticket_uid = ar_ticket_uid a,
      h_datetime = ar_datetime a, h_balance_diff = ar_balance_diff a,
      h_operation_type = ar_operation_type a\<rparr>"

section \<open>Example worlds\<close>

definition airport_a :: Airport where
  "airport_a = \<lparr>a_id = 1, a_name = ''SVO'', a_city = ''Moscow'', a_country = ''RU''\<rparr>"

definition airport_b :: Airport where
  "airport_b = \<lparr>a_id = 2, a_name = ''LED'', a_city = ''Piter'', a_country = ''RU''\<rparr>"

text \<open>One flight at price 1000, the user bob with balance 300, one paid ticket 5 of bob
  with its ledger entry; every collaborator reachable, no breaker created yet.\<close>

definition world0 :: world where
  "world0 =
     \<lparr>clock = 100, rand = (\<lambda>n. 7 + n), draws = 0, outage = (\<lambda>n. None), net_log = [],
      breakers = (\<lambda>s. None),
      flight_db = [\<lparr>f_id = 1, f_flight_number = ''AF1'', f_datetime = 50,
                    f_from_airport = airport_a, f_to_airport = airport_b, f_price = 1000\<rparr>],
      ticket_db = [\<lparr>t_id = 1, t_ticket_uid = 5, t_username = ''bob'', t_flight_number = ''AF1'',
                    t_price = 1000, t_status = ''PAID''\<rparr>],
      ticket_seq = 2,
      privilege_db = [\<lparr>p_id = 1, p_username = ''bob'', p_status = ''GOLD'', p_balance = 300\<rparr>],
      history_db = [\<lparr>h_id = 1, h_privilege_id = 1, h_ticket_uid = 5, h_datetime = 90,
                     h_balance_diff = 100, h_operation_type = ''FILL_IN_BALANCE''\<rparr>],
      history_seq = 2\<rparr>"

text \<open>A breaker of the deployed policy that opened at time 99.5.\<close>

definition opened_breaker :: "string \<Rightarrow> CircuitBreaker" where
  "opened_breaker service =
     (CircuitBreaker_init service 1 1)\<lparr>state := OPEN, failure_count := 1,
                                        last_failure_timestamp := 99.5\<rparr>"

text \<open>The same world, half a second after the breaker of the loyalty service opened.\<close>

definition world_loyalty_open :: world where
  "world_loyalty_open =
     world0\<lparr>breakers := (\<lambda>s. if s = Privileges_NAME then Some (opened_breaker Privileges_NAME) else None)\<rparr>"

text \<open>The same world with the breakers of all services open since 99.5.\<close>

definition world_all_open :: world where
  "world_all_open = world0\<lparr>breakers := (\<lambda>s. Some (opened_breaker s))\<rparr>"

text \<open>Two purchase requests for the flight of \<open>world0\<close>, with a price field that is not the
  catalog's, and a world in which the fifth request sent does not reach its collaborator.\<close>

definition request_from_balance :: TicketPurchaseRequest where
  "request_from_balance = \<lparr>rq_flightNumber = ''AF1'', rq_price = 1, rq_paidFromBalance = True\<rparr>"

definition request_cash :: TicketPurchaseRequest where
  "request_cash = \<lparr>rq_flightNumber = ''AF1'', rq_price = 1, rq_paidFromBalance = False\<rparr>"

definition world_ticket_down :: world where
  "world_ticket_down = world0\<lparr>outage := (\<lambda>n. if n = 4 then Some Unreachable else None)\<rparr>"

section \<open>Evaluation rules\<close>

lemmas comp_simps = then_do_def return_def raise_def send_def raise_for_status_def

lemmas cb_simps = wrap_cb_def breaker_of_def CircuitBreaker_call_def attempt_def on_success_def
  on_failure_def CircuitBreaker_init_def

lemmas name_simps = Flights_NAME_def Tickets_NAME_def Privileges_NAME_def

section \<open>The tickets store refuses a duplicate identifier\<close>

text \<open>
  Claim C7. A request to create a ticket whose identifier is already in the tickets store is
  answered 403 (Forbidden) by \<^verbatim>\<open>create_new_ticket\<close>, and the world, in particular the table of
  tickets, is left exactly as it was.
\<close>

theorem create_duplicate_forbidden:
  "\<exists>t\<in>set (ticket_db w). t_ticket_uid t = cr_ticketUid request \<Longrightarrow>
   tickets_create_new_ticket request w = ((403, Detail ''Ticket with this UUID already exists''), w)"
  by (auto simp: tickets_create_new_ticket_def find_None_iff split: option.splits)

theorem create_duplicate_forbidden_witness:
  "tickets_create_new_ticket
     \<lparr>cr_ticketUid = 5, cr_username = ''eve'', cr_flightNumber = ''AF1'', cr_price = 1\<rparr> world0
     = ((403, Detail ''Ticket with this UUID already exists''), world0)"
  using create_duplicate_forbidden
    [of world0 "\<lparr>cr_ticketUid = 5, cr_username = ''eve'', cr_flightNumber = ''AF1'', cr_price = 1\<rparr>"]
  by (simp add: world0_def)

section \<open>The price field of a purchase request\<close>

text \<open>
  Claim C10. The price a caller puts into a purchase request has no effect: two requests that
  differ only in that field give the same result (the response with its payment split) and
  the same final world (the requests sent, the ledger, the tickets).
\<close>

theorem price_field_ignored:
  "purchase_ticket (purchase_request\<lparr>rq_price := p1\<rparr>) x_user_name w
     = purchase_ticket (purchase_request\<lparr>rq_price := p2\<rparr>) x_user_name w"
  by (simp add: purchase_ticket_def purchase_after_lookup_def purchase_ledger_step_def
      purchase_response_def cong: option.case_cong if_cong)

section \<open>Lookups answered 404\<close>

text \<open>
  Claim C3, at the flight lookup. The catalog of \<open>world0\<close> has no flight ZZ9, so the flights
  service answers 404. \<^verbatim>\<open>get_flight_by_number\<close> has no test for that status before
  \<^verbatim>\<open>raise_for_status\<close>: the call raises HTTPError 404, and the breaker of the flights service
  counts it as a failure and opens.
\<close>

theorem flight_lookup_404_raises:
  "fst (FlightsService_get_flight_by_number ''ZZ9'' world0) = Inl (HTTPError 404)
   \<and> state (breaker_of Flights_NAME (snd (FlightsService_get_flight_by_number ''ZZ9'' world0))) = OPEN"
  by (simp add: FlightsService_get_flight_by_number_def FlightsService_get_flight_by_number_fn_def
      comp_simps cb_simps world0_def flights_get_flight_by_number_def Flights_NAME_def)

section \<open>The profile view under an open loyalty breaker\<close>

text \<open>
  Claim C8, at an open loyalty breaker. In \<open>world_loyalty_open\<close> the account lookup is refused
  with CircuitOpenException; the handler catches it, goes on with no account, fetches the
  tickets, and then builds \<^verbatim>\<open>UserInfoResponse(tickets=..., privilege="")\<close>, which the model's
  field declaration rejects: the request ends in a ValidationError, not in a response.
\<close>

theorem profile_fails_when_loyalty_open:
  "fst (get_current_user_profile ''bob'' world_loyalty_open)
     = Inl (ValidationError ''UserInfoResponse.privilege'')"
  by (simp add: get_current_user_profile_def profile_after_privilege_def
      PrivilegesService_get_user_privilege_def TicketsService_get_user_tickets_def
      TicketsService_get_user_tickets_fn_def try_except_CircuitOpen_def
      convert_ticket_to_response_def FlightsService_get_flight_by_number_def
      FlightsService_get_flight_by_number_fn_def UserInfoResponse_init_def
      TicketStatus_validate_def tickets_get_user_tickets_def flights_get_flight_by_number_def
      flight_to_response_def comp_simps cb_simps name_simps world_loyalty_open_def
      opened_breaker_def world0_def airport_a_def airport_b_def)

section \<open>The retrying cancel\<close>

text \<open>
  Claim C9, at the default deadline and interval. The first round of the loop looks up
  \<^verbatim>\<open>get_user_privelge_transaction\<close> on the privileges client, a name the class does not
  define: the function ends at once with AttributeError, having sent no request, although
  the ledger of \<open>world0\<close> holds the entry of ticket 5.
\<close>

theorem cancel_with_retry_attribute_error:
  "cancel_with_retry ''bob'' 5 10 1 world0
     = Some (Inl (AttributeError ''get_user_privelge_transaction''), world0)"
  by (simp add: cancel_with_retry_def retry_loop.simps retry_step_def retry_body_def
      call_lookup_method_def PrivilegesService_getattr_def comp_simps world0_def)

section \<open>The breaker under the deployed policy\<close>

lemma wrap_cb_open:
  "breaker_open service w \<Longrightarrow> wrap_cb service fn w = (Inl (CircuitOpenException service), w)"
  by (auto simp: breaker_open_def wrap_cb_def breaker_of_def CircuitBreaker_call_def fun_upd_idem
      split: option.splits)

lemma breaker_of_stored [simp]:
  "breaker_of service (w\<lparr>breakers := (breakers w)(service := Some cb)\<rparr>) = cb"
  by (simp add: breaker_of_def)

text \<open>
  Claim C2. Under the deployed policy (threshold 1, recovery timeout 1), for any guarded
  operation \<open>fn\<close>: (1) with the breaker CLOSED, a failing call leaves the breaker OPEN, stamped
  with the time at which the operation ended; (2) with the breaker OPEN and less than the
  timeout elapsed since the stamp, the call fails with CircuitOpenException and the world is
  unchanged, so that nothing was sent; (3) with the breaker OPEN and the timeout elapsed, the
  call is run as a trial from the HALF_OPEN state: the operation is executed, its success
  leaves the breaker CLOSED with failure count 0, its failure leaves the breaker OPEN with
  the stamp set to the time at which the trial ended.
\<close>

theorem breaker_policy:
  assumes "deployed_policy service w"
  shows "(state (breaker_of service w) = CLOSED \<longrightarrow>
           (\<forall>e w1. fn w = (Inl e, w1) \<longrightarrow>
              fst (wrap_cb service fn w) = Inl e
              \<and> state (breaker_of service (snd (wrap_cb service fn w))) = OPEN
              \<and> last_failure_timestamp (breaker_of service (snd (wrap_cb service fn w))) = clock w1))
       \<and> (state (breaker_of service w) = OPEN
            \<and> clock w - last_failure_timestamp (breaker_of service w) < 1 \<longrightarrow>
           wrap_cb service fn w = (Inl (CircuitOpenException service), w))
       \<and> (state (breaker_of service w) = OPEN
            \<and> clock w - last_failure_timestamp (breaker_of service w) \<ge> 1 \<longrightarrow>
           CircuitBreaker_call (breaker_of service w) fn w
             = attempt ((breaker_of service w)\<lparr>state := HALF_OPEN\<rparr>) fn w
           \<and> (\<exists>bs. snd (wrap_cb service fn w) = (snd (fn w))\<lparr>breakers := bs\<rparr>)
           \<and> (\<forall>v w1. fn w = (Inr v, w1) \<longrightarrow>
                fst (wrap_cb service fn w) = Inr v
                \<and> state (breaker_of service (snd (wrap_cb service fn w))) = CLOSED
                \<and> failure_count (breaker_of service (snd (wrap_cb service fn w))) = 0)
           \<and> (\<forall>e w1. fn w = (Inl e, w1) \<longrightarrow>
                fst (wrap_cb service fn w) = Inl e
                \<and> state (breaker_of service (snd (wrap_cb service fn w))) = OPEN
                \<and> last_failure_timestamp (breaker_of service (snd (wrap_cb service fn w))) = clock w1))"
proof (intro conjI impI allI)
  fix e w1 assume "state (breaker_of service w) = CLOSED" "fn w = (Inl e, w1)"
  with assms show "fst (wrap_cb service fn w) = Inl e"
    "state (breaker_of service (snd (wrap_cb service fn w))) = OPEN"
    "last_failure_timestamp (breaker_of service (snd (wrap_cb service fn w))) = clock w1"
    by (auto simp: deployed_policy_def cb_simps split: option.splits)
next
  assume "state (breaker_of service w) = OPEN \<and> clock w - last_failure_timestamp (breaker_of service w) < 1"
  with assms have "breaker_open service w"
    by (auto simp: deployed_policy_def breaker_open_def breaker_of_def CircuitBreaker_init_def split: option.splits)
  then show "wrap_cb service fn w = (Inl (CircuitOpenException service), w)"
    by (rule wrap_cb_open)
next
  assume a: "state (breaker_of service w) = OPEN \<and> 1 \<le> clock w - last_failure_timestamp (breaker_of service w)"
  with assms show "CircuitBreaker_call (breaker_of service w) fn w
             = attempt ((breaker_of service w)\<lparr>state := HALF_OPEN\<rparr>) fn w"
    by (auto simp: deployed_policy_def breaker_of_def CircuitBreaker_call_def CircuitBreaker_init_def split: option.splits)
  from assms a show "\<exists>bs. snd (wrap_cb service fn w) = (snd (fn w))\<lparr>breakers := bs\<rparr>"
    by (cases "fn w") (auto simp: deployed_policy_def cb_simps split: option.splits sum.splits)
  { fix v w1 assume "fn w = (Inr v, w1)"
    with assms a show "fst (wrap_cb service fn w) = Inr v"
      "state (breaker_of service (snd (wrap_cb service fn w))) = CLOSED"
      "failure_count (breaker_of service (snd (wrap_cb service fn w))) = 0"
      by (auto simp: deployed_policy_def cb_simps split: option.splits) }
  { fix e w1 assume "fn w = (Inl e, w1)"
    with assms a show "fst (wrap_cb service fn w) = Inl e"
      "state (breaker_of service (snd (wrap_cb service fn w))) = OPEN"
      "last_failure_timestamp (breaker_of service (snd (wrap_cb service fn w))) = clock w1"
      by (auto simp: deployed_policy_def cb_simps split: option.splits) }
qed


theorem breaker_policy_witness:
  "state (breaker_of Flights_NAME
            (snd (wrap_cb Flights_NAME (FlightsService_get_flight_by_number_fn ''ZZ9'') world0))) = OPEN
   \<and> wrap_cb Privileges_NAME (PrivilegesService_get_user_privilege_fn ''bob'') world_loyalty_open
       = (Inl (CircuitOpenException Privileges_NAME), world_loyalty_open)
   \<and> state (breaker_of Privileges_NAME
              (snd (wrap_cb Privileges_NAME (PrivilegesService_get_user_privilege_fn ''bob'')
                      (world_loyalty_open\<lparr>clock := 101\<rparr>)))) = CLOSED"
  using breaker_policy [of Flights_NAME world0 "FlightsService_get_flight_by_number_fn ''ZZ9''"]
    breaker_policy [of Privileges_NAME world_loyalty_open "PrivilegesService_get_user_privilege_fn ''bob''"]
    breaker_policy [of Privileges_NAME "world_loyalty_open\<lparr>clock := 101\<rparr>"
      "PrivilegesService_get_user_privilege_fn ''bob''"]
  by (simp add: deployed_policy_def breaker_of_def CircuitBreaker_init_def world0_def
      world_loyalty_open_def opened_breaker_def name_simps
      FlightsService_get_flight_by_number_fn_def PrivilegesService_get_user_privilege_fn_def
      comp_simps flights_get_flight_by_number_def bonus_get_privilege_def)

section \<open>Guarded reads, unguarded writes\<close>

lemma serve_net_log: "net_log (snd (serve req w)) = net_log w"
  by (cases req)
    (auto simp: flights_get_all_flights_def flights_get_flight_by_number_def
      tickets_get_user_tickets_def tickets_get_ticket_details_def tickets_remove_ticket_def
      tickets_create_new_ticket_def bonus_get_privilege_def bonus_get_history_def
      bonus_get_transaction_def bonus_add_transaction_def bonus_delete_transaction_def
      health_check_def Let_def
      split: option.splits)

lemma serve_breakers: "breakers (snd (serve req w)) = breakers w"
  by (cases req)
    (auto simp: flights_get_all_flights_def flights_get_flight_by_number_def
      tickets_get_user_tickets_def tickets_get_ticket_details_def tickets_remove_ticket_def
      tickets_create_new_ticket_def bonus_get_privilege_def bonus_get_history_def
      bonus_get_transaction_def bonus_add_transaction_def bonus_delete_transaction_def
      health_check_def Let_def
      split: option.splits)

lemma send_attempt:
  "net_log (snd (send req w)) = net_log w @ [req]
   \<and> breakers (snd (send req w)) = breakers w
   \<and> (fst (send req w) = Inl ConnectionError \<or> (\<exists>resp. fst (send req w) = Inr resp))"
  using serve_net_log [of req "w\<lparr>net_log := net_log w @ [req]\<rparr>"]
    serve_breakers [of req "w\<lparr>net_log := net_log w @ [req]\<rparr>"]
  by (auto simp: send_def Let_def split: option.splits net_fault.splits prod.splits)

lemma unguarded_write:
  "net_log (snd (then_do (send req) raise_for_status w)) = net_log w @ [req]
   \<and> breakers (snd (then_do (send req) raise_for_status w)) = breakers w
   \<and> (\<forall>s. fst (then_do (send req) raise_for_status w) \<noteq> Inl (CircuitOpenException s))"
  using send_attempt [of req w]
  by (cases "send req w") (auto simp: then_do_def raise_for_status_def split: sum.splits)

text \<open>
  Claim C6. Each of the seven list/get operations of the three clients is guarded: while
  the breaker of its service is open it fails with CircuitOpenException and sends nothing.
  Each of the four write operations (create ticket, delete ticket, append ledger entry,
  delete ledger entry) sends its request whatever the state of the breakers, and never fails
  with CircuitOpenException. (The liveness probes \<^verbatim>\<open>health_check\<close> are neither.)
\<close>

theorem breaker_asymmetry:
  "(breaker_open Flights_NAME w \<longrightarrow>
      FlightsService_get_all_flights page page_size w = (Inl (CircuitOpenException Flights_NAME), w)
      \<and> FlightsService_get_flight_by_number flight_number w = (Inl (CircuitOpenException Flights_NAME), w))
   \<and> (breaker_open Tickets_NAME w \<longrightarrow>
      TicketsService_get_user_tickets username w = (Inl (CircuitOpenException Tickets_NAME), w)
      \<and> TicketsService_get_ticket_by_uid ticket_uid w = (Inl (CircuitOpenException Tickets_NAME), w))
   \<and> (breaker_open Privileges_NAME w \<longrightarrow>
      PrivilegesService_get_user_privilege username w = (Inl (CircuitOpenException Privileges_NAME), w)
      \<and> PrivilegesService_get_user_privilege_history username w
          = (Inl (CircuitOpenException Privileges_NAME), w)
      \<and> PrivilegesService_get_user_privilege_transaction username ticket_uid w
          = (Inl (CircuitOpenException Privileges_NAME), w))
   \<and> (net_log (snd (TicketsService_create_new_ticket ticket_uid username flight_number price w))
        = net_log w @ [PostTicket \<lparr>cr_ticketUid = ticket_uid, cr_username = username,
                                   cr_flightNumber = flight_number, cr_price = price\<rparr>]
      \<and> (\<forall>s. fst (TicketsService_create_new_ticket ticket_uid username flight_number price w)
               \<noteq> Inl (CircuitOpenException s)))
   \<and> (net_log (snd (TicketsService_remove_ticket ticket_uid w)) = net_log w @ [DeleteTicket ticket_uid]
      \<and> (\<forall>s. fst (TicketsService_remove_ticket ticket_uid w) \<noteq> Inl (CircuitOpenException s)))
   \<and> (net_log (snd (PrivilegesService_add_privilege_transaction username transaction_data w))
        = net_log w @ [PostTransaction username transaction_data]
      \<and> (\<forall>s. fst (PrivilegesService_add_privilege_transaction username transaction_data w)
               \<noteq> Inl (CircuitOpenException s)))
   \<and> (net_log (snd (PrivilegesService_revert_transaction username ticket_uid w))
        = net_log w @ [DeleteTransaction username ticket_uid]
      \<and> (\<forall>s. fst (PrivilegesService_revert_transaction username ticket_uid w)
               \<noteq> Inl (CircuitOpenException s)))"
proof -
  have reads_f: "breaker_open Flights_NAME w \<longrightarrow>
      FlightsService_get_all_flights page page_size w = (Inl (CircuitOpenException Flights_NAME), w)
      \<and> FlightsService_get_flight_by_number flight_number w = (Inl (CircuitOpenException Flights_NAME), w)"
    by (simp add: FlightsService_get_all_flights_def FlightsService_get_flight_by_number_def wrap_cb_open)
  have reads_t: "breaker_open Tickets_NAME w \<longrightarrow>
      TicketsService_get_user_tickets username w = (Inl (CircuitOpenException Tickets_NAME), w)
      \<and> TicketsService_get_ticket_by_uid ticket_uid w = (Inl (CircuitOpenException Tickets_NAME), w)"
    by (simp add: TicketsService_get_user_tickets_def TicketsService_get_ticket_by_uid_def wrap_cb_open)
  have reads_p: "breaker_open Privileges_NAME w \<longrightarrow>
      PrivilegesService_get_user_privilege username w = (Inl (CircuitOpenException Privileges_NAME), w)
      \<and> PrivilegesService_get_user_privilege_history username w
          = (Inl (CircuitOpenException Privileges_NAME), w)
      \<and> PrivilegesService_get_user_privilege_transaction username ticket_uid w
          = (Inl (CircuitOpenException Privileges_NAME), w)"
    by (simp add: PrivilegesService_get_user_privilege_def PrivilegesService_get_user_privilege_history_def
        PrivilegesService_get_user_privilege_transaction_def wrap_cb_open)
  have w1: "net_log (snd (TicketsService_create_new_ticket ticket_uid username flight_number price w))
        = net_log w @ [PostTicket \<lparr>cr_ticketUid = ticket_uid, cr_username = username,
                                   cr_flightNumber = flight_number, cr_price = price\<rparr>]
      \<and> (\<forall>s. fst (TicketsService_create_new_ticket ticket_uid username flight_number price w)
               \<noteq> Inl (CircuitOpenException s))"
    using unguarded_write by (simp add: TicketsService_create_new_ticket_def)
  have w2: "net_log (snd (TicketsService_remove_ticket ticket_uid w)) = net_log w @ [DeleteTicket ticket_uid]
      \<and> (\<forall>s. fst (TicketsService_remove_ticket ticket_uid w) \<noteq> Inl (CircuitOpenException s))"
    using unguarded_write by (simp add: TicketsService_remove_ticket_def)
  have w3: "net_log (snd (PrivilegesService_add_privilege_transaction username transaction_data w))
        = net_log w @ [PostTransaction username transaction_data]
      \<and> (\<forall>s. fst (PrivilegesService_add_privilege_transaction username transaction_data w)
               \<noteq> Inl (CircuitOpenException s))"
    using unguarded_write by (simp add: PrivilegesService_add_privilege_transaction_def)
  have w4: "net_log (snd (PrivilegesService_revert_transaction username ticket_uid w))
        = net_log w @ [DeleteTransaction username ticket_uid]
      \<and> (\<forall>s. fst (PrivilegesService_revert_transaction username ticket_uid w)
               \<noteq> Inl (CircuitOpenException s))"
    using unguarded_write by (simp add: PrivilegesService_revert_transaction_def)
  from reads_f reads_t reads_p w1 w2 w3 w4 show ?thesis by blast
qed

theorem breaker_asymmetry_witness:
  "FlightsService_get_flight_by_number ''AF1'' world_all_open
     = (Inl (CircuitOpenException Flights_NAME), world_all_open)
   \<and> TicketsService_get_ticket_by_uid 5 world_all_open
     = (Inl (CircuitOpenException Tickets_NAME), world_all_open)
   \<and> PrivilegesService_get_user_privilege_transaction ''bob'' 5 world_all_open
     = (Inl (CircuitOpenException Privileges_NAME), world_all_open)
   \<and> fst (PrivilegesService_revert_transaction ''bob'' 5 world_all_open) = Inr ()
   \<and> fst (TicketsService_remove_ticket 5 world_all_open) = Inr ()
   \<and> net_log (snd (TicketsService_remove_ticket 5 world_all_open)) = [DeleteTicket 5]"
  using breaker_asymmetry [where w = world_all_open and flight_number = "''AF1''" and username = "''bob''"
      and ticket_uid = 5]
  by (simp add: breaker_open_def world_all_open_def opened_breaker_def CircuitBreaker_init_def
      world0_def PrivilegesService_revert_transaction_def TicketsService_remove_ticket_def
      comp_simps bonus_delete_transaction_def find_transaction_def tickets_remove_ticket_def)

text \<open>
  Outside the list/get and write operations: the liveness probes send their request
  whatever the breakers say, and the or-default flight lookup answers a refusal of the
  breaker with its placeholder flight, having sent nothing.
\<close>

lemma health_check_unguarded:
  "net_log (snd (FlightsService_health_check w)) = net_log w @ [GetHealth Flights_NAME]"
  "net_log (snd (TicketsService_health_check w)) = net_log w @ [GetHealth Tickets_NAME]"
  "net_log (snd (PrivilegesService_health_check w)) = net_log w @ [GetHealth Privileges_NAME]"
  using unguarded_write
  by (simp_all add: FlightsService_health_check_def TicketsService_health_check_def
      PrivilegesService_health_check_def)

lemma flight_or_default_when_open:
  "breaker_open Flights_NAME w \<Longrightarrow>
   FlightsService_get_flight_by_number_or_default flight_number w =
     (Inr \<lparr>fr_flightNumber = ''XXX'', fr_fromAirport = ''XXX'', fr_toAirport = ''XXX'',
           fr_date = 1, fr_price = 0\<rparr>, w)"
  by (simp add: FlightsService_get_flight_by_number_or_default_def
      FlightsService_get_flight_by_number_def wrap_cb_open)

section \<open>Runs of the client operations\<close>

lemma then_doE:
  assumes "then_do m f w = (r, w')"
  obtains (fail) e where "m w = (Inl e, w')" "r = Inl e"
        | (ok) x w1 where "m w = (Inr x, w1)" "f x w1 = (r, w')"
  using assms by (auto simp: then_do_def split: prod.splits sum.splits)

lemma wrap_cb_cases:
  assumes "wrap_cb service fn w = (r, w')"
  shows "(\<exists>bs s. r = Inl (CircuitOpenException s) \<and> w' = w\<lparr>breakers := bs\<rparr>)
       \<or> (\<exists>w1 bs. fn w = (r, w1) \<and> w' = w1\<lparr>breakers := bs\<rparr>)"
  using assms
  by (cases "fn w") (auto simp: wrap_cb_def CircuitBreaker_call_def attempt_def
      split: prod.splits sum.splits if_splits)

lemma wrap_cb_ok:
  assumes "wrap_cb service fn w = (Inr v, w')"
  shows "\<exists>w1. fn w = (Inr v, w1)
           \<and> w' = w1\<lparr>breakers := (breakers w1)(service :=
                    Some ((breaker_of service w)\<lparr>state := CLOSED, failure_count := 0\<rparr>))\<rparr>"
  using assms
  by (cases "fn w") (auto simp: wrap_cb_def CircuitBreaker_call_def attempt_def on_success_def
      split: prod.splits sum.splits if_splits)

lemma get_flight_fn_run:
  assumes "FlightsService_get_flight_by_number_fn n w = (r, w1)"
  shows "w1 = w\<lparr>net_log := net_log w @ [GetFlight n]\<rparr>
       \<and> (\<forall>fi. r = Inr fi \<longrightarrow>
            (\<exists>row. find (\<lambda>f. f_flight_number f = n) (flight_db w) = Some row
                   \<and> fi = flight_to_response row))"
  using assms
  by (auto simp: FlightsService_get_flight_by_number_fn_def comp_simps
      flights_get_flight_by_number_def Let_def
      split: option.splits net_fault.splits if_splits body.splits)

lemma get_privilege_fn_run:
  assumes "PrivilegesService_get_user_privilege_fn u w = (r, w1)"
  shows "w1 = w\<lparr>net_log := net_log w @ [GetPrivilege u]\<rparr>
       \<and> (\<forall>a. r = Inr (Some a) \<longrightarrow> find (\<lambda>p. p_username p = u) (privilege_db w) = Some a)"
  using assms
  by (auto simp: PrivilegesService_get_user_privilege_fn_def comp_simps
      bonus_get_privilege_def Let_def
      split: option.splits net_fault.splits if_splits body.splits)

lemma get_ticket_fn_run:
  assumes "TicketsService_get_ticket_by_uid_fn uid w = (r, w1)"
  shows "w1 = w\<lparr>net_log := net_log w @ [GetTicket uid]\<rparr>
       \<and> (\<forall>t. r = Inr (Some t) \<longrightarrow> find (\<lambda>t. t_ticket_uid t = uid) (ticket_db w) = Some t)
       \<and> (outage w (length (net_log w)) = None
            \<and> find (\<lambda>t. t_ticket_uid t = uid) (ticket_db w) = None \<longrightarrow> r = Inr None)"
  using assms
  by (auto simp: TicketsService_get_ticket_by_uid_fn_def comp_simps
      tickets_get_ticket_details_def Let_def
      split: option.splits net_fault.splits if_splits body.splits)

lemma get_transaction_fn_run:
  assumes "PrivilegesService_get_user_privilege_transaction_fn u uid w = (r, w1)"
  shows "w1 = w\<lparr>net_log := net_log w @ [GetTransaction u uid]\<rparr>
       \<and> (\<forall>h. r = Inr (Some h) \<longrightarrow> find_transaction u uid w = Some h)
       \<and> (r = Inr None \<longrightarrow> find_transaction u uid w = None)"
  using assms
  by (auto simp: PrivilegesService_get_user_privilege_transaction_fn_def comp_simps
      bonus_get_transaction_def find_transaction_def Let_def
      split: option.splits net_fault.splits if_splits body.splits)

lemma revert_run:
  assumes "PrivilegesService_revert_transaction u uid w = (Inr x, w1)"
  shows "\<exists>h. find_transaction u uid w = Some h
           \<and> w1 = w\<lparr>net_log := net_log w @ [DeleteTransaction u uid],
                    history_db := remove1 h (history_db w),
                    privilege_db := add_balance (h_privilege_id h) (- signed_diff h) (privilege_db w)\<rparr>"
  using assms
  by (auto simp: PrivilegesService_revert_transaction_def comp_simps
      bonus_delete_transaction_def find_transaction_def Let_def
      split: option.splits net_fault.splits if_splits)

lemma remove_ticket_run:
  assumes "TicketsService_remove_ticket uid w = (Inr x, w1)"
  shows "\<exists>t. find (\<lambda>t. t_ticket_uid t = uid) (ticket_db w) = Some t
           \<and> w1 = w\<lparr>net_log := net_log w @ [DeleteTicket uid],
                    ticket_db := remove1 t (ticket_db w)\<rparr>"
  using assms
  by (auto simp: TicketsService_remove_ticket_def comp_simps
      tickets_remove_ticket_def Let_def
      split: option.splits net_fault.splits if_splits)


section \<open>The cancel saga\<close>

lemma wrap_cb_not_open:
  assumes "state (breaker_of service w) \<noteq> OPEN" "fn w = (Inr v, w1)"
  shows "fst (wrap_cb service fn w) = Inr v"
  using assms by (simp add: wrap_cb_def CircuitBreaker_call_def attempt_def)

lemma remove1_unique_key:
  assumes "distinct (map f xs)" "find (\<lambda>x. f x = k) xs = Some t"
  shows "\<forall>x\<in>set (remove1 t xs). f x \<noteq> k"
proof
  fix x assume x: "x \<in> set (remove1 t xs)"
  from assms(2) have t: "t \<in> set xs" "f t = k"
    by (auto simp: find_Some_iff)
  from assms(1) have d: "distinct xs" and inj: "inj_on f (set xs)"
    by (auto simp: distinct_map)
  from x d have "x \<in> set xs" "x \<noteq> t" by auto
  with inj t show "f x \<noteq> k" by (auto dest: inj_onD)
qed

lemma cancel_run:
  assumes run: "cancel_ticket ticket_uid x_user_name w = (Inr NoContent, w')"
  shows "\<exists>t. find (\<lambda>t. t_ticket_uid t = ticket_uid) (ticket_db w) = Some t
            \<and> t_username t = x_user_name \<and> t_status t = ''PAID''
            \<and> ticket_db w' = remove1 t (ticket_db w)
            \<and> history_db w' = (case find_transaction x_user_name ticket_uid w of
                                  None \<Rightarrow> history_db w
                                | Some h \<Rightarrow> remove1 h (history_db w))
            \<and> net_log w' = net_log w @ [GetTicket ticket_uid, GetTransaction x_user_name ticket_uid]
                  @ (case find_transaction x_user_name ticket_uid w of
                       None \<Rightarrow> [] | Some h \<Rightarrow> [DeleteTransaction x_user_name ticket_uid])
                  @ [DeleteTicket ticket_uid]
            \<and> state (breaker_of Tickets_NAME w') = CLOSED"
proof -
  from run obtain ti w1 where
    s1: "TicketsService_get_ticket_by_uid ticket_uid w = (Inr ti, w1)" and
    r1: "(case ti of
            None \<Rightarrow> return (create_error_response ''Ticket does not exist'' 404)
          | Some ticket \<Rightarrow>
              if t_username ticket \<noteq> x_user_name then
                return (create_error_response ''Ticket does not belong to user'' 403)
              else if t_status ticket \<noteq> ''PAID'' then
                return (create_error_response ''Ticket cannot be cancelled'' 400)
              else
                then_do (PrivilegesService_get_user_privilege_transaction x_user_name ticket_uid)
                  (\<lambda>transaction_record.
                then_do (case transaction_record of
                           None \<Rightarrow> return ()
                         | Some record \<Rightarrow> PrivilegesService_revert_transaction x_user_name ticket_uid)
                  (\<lambda>_.
                then_do (TicketsService_remove_ticket ticket_uid) (\<lambda>_. return NoContent)))) w1
          = (Inr NoContent, w')"
    unfolding cancel_ticket_def by (elim then_doE) auto
  from r1 obtain t where ti: "ti = Some t" and own: "t_username t = x_user_name"
    and paid: "t_status t = ''PAID''"
    by (cases ti) (auto simp: return_def create_error_response_def split: if_splits)
  from r1 ti own paid obtain tr w2 u3 w3 u4 where
    s2: "PrivilegesService_get_user_privilege_transaction x_user_name ticket_uid w1 = (Inr tr, w2)" and
    s3: "(case tr of None \<Rightarrow> return ()
                   | Some record \<Rightarrow> PrivilegesService_revert_transaction x_user_name ticket_uid) w2
           = (Inr u3, w3)" and
    s4: "TicketsService_remove_ticket ticket_uid w3 = (Inr u4, w')"
    by (auto elim!: then_doE simp: return_def)
  let ?cb1 = "(breaker_of Tickets_NAME w)\<lparr>state := CLOSED, failure_count := 0\<rparr>"
  from s1 ti have f1: "find (\<lambda>t. t_ticket_uid t = ticket_uid) (ticket_db w) = Some t"
    and w1: "w1 = w\<lparr>net_log := net_log w @ [GetTicket ticket_uid],
                     breakers := (breakers w)(Tickets_NAME := Some ?cb1)\<rparr>"
    unfolding TicketsService_get_ticket_by_uid_def
    by (auto dest!: wrap_cb_ok get_ticket_fn_run)
  let ?cb2 = "(breaker_of Privileges_NAME w1)\<lparr>state := CLOSED, failure_count := 0\<rparr>"
  from s2 have f2: "tr = find_transaction x_user_name ticket_uid w1"
    and w2: "w2 = w1\<lparr>net_log := net_log w1 @ [GetTransaction x_user_name ticket_uid],
                      breakers := (breakers w1)(Privileges_NAME := Some ?cb2)\<rparr>"
    unfolding PrivilegesService_get_user_privilege_transaction_def
    by (cases tr; auto dest!: wrap_cb_ok get_transaction_fn_run)+
  have ft: "find_transaction x_user_name ticket_uid w1 = find_transaction x_user_name ticket_uid w"
    "find_transaction x_user_name ticket_uid w2 = find_transaction x_user_name ticket_uid w"
    by (simp_all add: w1 w2 find_transaction_def cong: option.case_cong)
  from f2 ft have trw: "find_transaction x_user_name ticket_uid w = tr"
    by simp
  have w3: "w3 = (case tr of
                    None \<Rightarrow> w2
                  | Some h \<Rightarrow> w2\<lparr>net_log := net_log w2 @ [DeleteTransaction x_user_name ticket_uid],
                                 history_db := remove1 h (history_db w2),
                                 privilege_db := add_balance (h_privilege_id h) (- signed_diff h)
                                                   (privilege_db w2)\<rparr>)"
  proof (cases tr)
    case None
    with s3 show ?thesis by (simp add: return_def)
  next
    case (Some h)
    with s3 have "PrivilegesService_revert_transaction x_user_name ticket_uid w2 = (Inr u3, w3)"
      by simp
    from revert_run [OF this] obtain h' where
      h': "find_transaction x_user_name ticket_uid w2 = Some h'" and
      w3': "w3 = w2\<lparr>net_log := net_log w2 @ [DeleteTransaction x_user_name ticket_uid],
                     history_db := remove1 h' (history_db w2),
                     privilege_db := add_balance (h_privilege_id h') (- signed_diff h')
                                       (privilege_db w2)\<rparr>"
      by blast
    from f2 ft Some have "find_transaction x_user_name ticket_uid w2 = Some h" by simp
    with h' have "h' = h" by simp
    with w3' Some show ?thesis by simp
  qed
  from s4 obtain t' where f4: "find (\<lambda>t. t_ticket_uid t = ticket_uid) (ticket_db w3) = Some t'"
    and w': "w' = w3\<lparr>net_log := net_log w3 @ [DeleteTicket ticket_uid],
                      ticket_db := remove1 t' (ticket_db w3)\<rparr>"
    by (auto dest!: remove_ticket_run)
  have td3: "ticket_db w3 = ticket_db w"
    by (cases tr) (simp_all add: w3 w2 w1)
  with f4 f1 have tt: "t' = t" by simp
  have names: "Tickets_NAME \<noteq> Privileges_NAME"
    by (simp add: name_simps)
  have "ticket_db w' = remove1 t (ticket_db w)"
    by (simp add: w' td3 tt)
  moreover have "history_db w' = (case find_transaction x_user_name ticket_uid w of
                                  None \<Rightarrow> history_db w
                                | Some h \<Rightarrow> remove1 h (history_db w))"
    unfolding trw by (cases tr) (simp_all add: w' w3 w2 w1)
  moreover have "net_log w' = net_log w @ [GetTicket ticket_uid, GetTransaction x_user_name ticket_uid]
                  @ (case find_transaction x_user_name ticket_uid w of
                       None \<Rightarrow> [] | Some h \<Rightarrow> [DeleteTransaction x_user_name ticket_uid])
                  @ [DeleteTicket ticket_uid]"
    unfolding trw by (cases tr) (simp_all add: w' w3 w2 w1)
  moreover have "state (breaker_of Tickets_NAME w') = CLOSED"
    using names by (cases tr) (simp_all add: w' w3 w2 w1 breaker_of_def)
  ultimately show ?thesis using f1 own paid by blast
qed


lemma find_transaction_Some:
  "find_transaction u uid w = Some h \<Longrightarrow> h \<in> set (history_db w) \<and> h_ticket_uid h = uid"
  by (auto simp: find_transaction_def find_Some_iff split: option.splits)

lemma cancel_absent:
  assumes "\<forall>t\<in>set (ticket_db w). t_ticket_uid t \<noteq> ticket_uid"
  shows "fst (cancel_ticket ticket_uid x_user_name w) \<noteq> Inr NoContent"
proof
  assume "fst (cancel_ticket ticket_uid x_user_name w) = Inr NoContent"
  then have "cancel_ticket ticket_uid x_user_name w
               = (Inr NoContent, snd (cancel_ticket ticket_uid x_user_name w))"
    by (metis prod.collapse)
  from cancel_run [OF this] obtain t where
    "find (\<lambda>t. t_ticket_uid t = ticket_uid) (ticket_db w) = Some t" by blast
  then have "t \<in> set (ticket_db w)" "t_ticket_uid t = ticket_uid"
    by (auto simp: find_Some_iff)
  with assms show False by blast
qed

lemma cancel_absent_404:
  assumes absent: "\<forall>t\<in>set (ticket_db w). t_ticket_uid t \<noteq> ticket_uid"
    and closed: "state (breaker_of Tickets_NAME w) = CLOSED"
    and up: "outage w (length (net_log w)) = None"
  shows "fst (cancel_ticket ticket_uid x_user_name w)
           = Inr (JSONResponse ''Ticket does not exist'' 404)"
proof -
  from absent have none: "find (\<lambda>t. t_ticket_uid t = ticket_uid) (ticket_db w) = None"
    by (simp add: find_None_iff)
  obtain r w1 where fn: "TicketsService_get_ticket_by_uid_fn ticket_uid w = (r, w1)"
    by (cases "TicketsService_get_ticket_by_uid_fn ticket_uid w")
  from get_ticket_fn_run [OF fn] none up have "r = Inr None" by blast
  with fn closed have "fst (TicketsService_get_ticket_by_uid ticket_uid w) = Inr None"
    unfolding TicketsService_get_ticket_by_uid_def by (intro wrap_cb_not_open) auto
  then show ?thesis
    by (cases "TicketsService_get_ticket_by_uid ticket_uid w")
      (simp add: cancel_ticket_def then_do_def return_def create_error_response_def)
qed

text \<open>
  Claim C5. Let a cancel of a ticket succeed (the handler returns with status 204) in a
  world whose tickets have distinct identifiers. Then the ticket was there, owned by the
  caller and PAID, and its record is deleted: no ticket with that identifier is left. If the
  ledger holds an entry of the caller for that ticket identifier, exactly that one entry is
  deleted, by one delete request; if it holds none, the ledger is unchanged and no delete
  request is sent. A second cancel of the same identifier does not succeed; when its lookup
  reaches the tickets store, it is answered 404, ``Ticket does not exist''.
\<close>

theorem cancel_deletes_entry_and_ticket:
  assumes run: "cancel_ticket ticket_uid x_user_name w = (Inr NoContent, w')"
      and uniq: "distinct (map t_ticket_uid (ticket_db w))"
  shows "(\<exists>t\<in>set (ticket_db w). t_ticket_uid t = ticket_uid \<and> t_username t = x_user_name
            \<and> t_status t = ''PAID'' \<and> ticket_db w' = remove1 t (ticket_db w))
       \<and> (\<forall>t\<in>set (ticket_db w'). t_ticket_uid t \<noteq> ticket_uid)
       \<and> (case find_transaction x_user_name ticket_uid w of
             None \<Rightarrow> history_db w' = history_db w
                      \<and> filter is_ledger_delete (issued w w') = []
           | Some h \<Rightarrow> h \<in> set (history_db w) \<and> h_ticket_uid h = ticket_uid
                      \<and> history_db w' = remove1 h (history_db w)
                      \<and> mset (history_db w') = mset (history_db w) - {#h#}
                      \<and> filter is_ledger_delete (issued w w')
                          = [DeleteTransaction x_user_name ticket_uid])
       \<and> fst (cancel_ticket ticket_uid x_user_name w') \<noteq> Inr NoContent
       \<and> (outage w' (length (net_log w')) = None \<longrightarrow>
            fst (cancel_ticket ticket_uid x_user_name w')
              = Inr (JSONResponse ''Ticket does not exist'' 404))"
proof -
  from cancel_run [OF run] obtain t where
    f: "find (\<lambda>t. t_ticket_uid t = ticket_uid) (ticket_db w) = Some t" and
    own: "t_username t = x_user_name" "t_status t = ''PAID''" and
    td: "ticket_db w' = remove1 t (ticket_db w)" and
    hd: "history_db w' = (case find_transaction x_user_name ticket_uid w of
                            None \<Rightarrow> history_db w
                          | Some h \<Rightarrow> remove1 h (history_db w))" and
    lg: "net_log w' = net_log w @ [GetTicket ticket_uid, GetTransaction x_user_name ticket_uid]
                  @ (case find_transaction x_user_name ticket_uid w of
                       None \<Rightarrow> [] | Some h \<Rightarrow> [DeleteTransaction x_user_name ticket_uid])
                  @ [DeleteTicket ticket_uid]" and
    cl: "state (breaker_of Tickets_NAME w') = CLOSED"
    by blast
  from f have t: "t \<in> set (ticket_db w)" "t_ticket_uid t = ticket_uid"
    by (auto simp: find_Some_iff)
  from remove1_unique_key [OF uniq f] td
  have gone: "\<forall>t\<in>set (ticket_db w'). t_ticket_uid t \<noteq> ticket_uid" by simp
  have ledger: "case find_transaction x_user_name ticket_uid w of
             None \<Rightarrow> history_db w' = history_db w
                      \<and> filter is_ledger_delete (issued w w') = []
           | Some h \<Rightarrow> h \<in> set (history_db w) \<and> h_ticket_uid h = ticket_uid
                      \<and> history_db w' = remove1 h (history_db w)
                      \<and> mset (history_db w') = mset (history_db w) - {#h#}
                      \<and> filter is_ledger_delete (issued w w')
                          = [DeleteTransaction x_user_name ticket_uid]"
  proof (cases "find_transaction x_user_name ticket_uid w")
    case None
    with hd lg show ?thesis by (simp add: issued_def)
  next
    case (Some h)
    with hd lg find_transaction_Some [OF Some] show ?thesis by (simp add: issued_def)
  qed
  from t own td gone ledger cancel_absent [OF gone] cancel_absent_404 [OF gone cl]
  show ?thesis by blast
qed


lemmas client_simps =
  FlightsService_get_all_flights_def FlightsService_get_all_flights_fn_def
  FlightsService_get_flight_by_number_def FlightsService_get_flight_by_number_fn_def
  TicketsService_get_user_tickets_def TicketsService_get_user_tickets_fn_def
  TicketsService_get_ticket_by_uid_def TicketsService_get_ticket_by_uid_fn_def
  TicketsService_remove_ticket_def TicketsService_create_new_ticket_def
  PrivilegesService_get_user_privilege_def PrivilegesService_get_user_privilege_fn_def
  PrivilegesService_get_user_privilege_history_def PrivilegesService_get_user_privilege_history_fn_def
  PrivilegesService_get_user_privilege_transaction_def
  PrivilegesService_get_user_privilege_transaction_fn_def
  PrivilegesService_add_privilege_transaction_def PrivilegesService_revert_transaction_def

lemmas server_simps =
  flights_get_all_flights_def flights_get_flight_by_number_def flight_to_response_def
  tickets_get_user_tickets_def tickets_get_ticket_details_def tickets_create_new_ticket_def
  tickets_remove_ticket_def bonus_get_privilege_def bonus_get_history_def find_transaction_def
  bonus_get_transaction_def bonus_add_transaction_def bonus_delete_transaction_def
  signed_diff_def add_balance_def OperationType_validate_def

lemma cancel_ticket_world0:
  "cancel_ticket 5 ''bob'' world0 =
     (Inr NoContent,
      world0\<lparr>net_log := [GetTicket 5, GetTransaction ''bob'' 5, DeleteTransaction ''bob'' 5,
                          DeleteTicket 5],
             breakers := (\<lambda>s. if s = Tickets_NAME then Some (CircuitBreaker_init Tickets_NAME 1 1)
                               else if s = Privileges_NAME
                               then Some (CircuitBreaker_init Privileges_NAME 1 1) else None),
             ticket_db := [], history_db := [],
             privilege_db := [\<lparr>p_id = 1, p_username = ''bob'', p_status = ''GOLD'', p_balance = 200\<rparr>]\<rparr>)"
  by (simp add: cancel_ticket_def client_simps server_simps comp_simps cb_simps name_simps
      world0_def fun_eq_iff)

theorem cancel_deletes_entry_and_ticket_witness:
  "fst (cancel_ticket 5 ''bob'' world0) = Inr NoContent
   \<and> ticket_db (snd (cancel_ticket 5 ''bob'' world0)) = []
   \<and> history_db (snd (cancel_ticket 5 ''bob'' world0)) = []
   \<and> fst (cancel_ticket 5 ''bob'' (snd (cancel_ticket 5 ''bob'' world0)))
       = Inr (JSONResponse ''Ticket does not exist'' 404)"
proof -
  have d: "distinct (map t_ticket_uid (ticket_db world0))"
    by (simp add: world0_def)
  show ?thesis
    unfolding cancel_ticket_world0
    using cancel_deletes_entry_and_ticket [OF cancel_ticket_world0 d]
    by (simp add: world0_def)
qed

text \<open>The tickets store keeps identifiers distinct: no request it serves breaks that.\<close>

lemma distinct_map_remove1:
  "distinct (map f xs) \<Longrightarrow> distinct (map f (remove1 x xs))"
proof (induction xs)
  case Nil
  then show ?case by simp
next
  case (Cons y ys)
  have "set (remove1 x ys) \<subseteq> set ys" by (rule set_remove1_subset)
  with Cons show ?case by auto
qed

lemma ticket_uids_stay_distinct:
  assumes "distinct (map t_ticket_uid (ticket_db w))"
  shows "distinct (map t_ticket_uid (ticket_db (snd (serve req w))))"
proof (cases req)
  case (PostTicket request)
  with assms show ?thesis
    by (auto simp: tickets_create_new_ticket_def Let_def find_None_iff split: option.splits)
next
  case (DeleteTicket ticket_uid)
  with assms show ?thesis
    by (auto simp: tickets_remove_ticket_def distinct_map_remove1 split: option.splits)
qed (use assms in \<open>auto simp: flights_get_all_flights_def flights_get_flight_by_number_def
      tickets_get_user_tickets_def tickets_get_ticket_details_def
      bonus_get_privilege_def bonus_get_history_def
      bonus_get_transaction_def bonus_add_transaction_def bonus_delete_transaction_def
      health_check_def Let_def split: option.splits\<close>)

section \<open>The purchase saga\<close>

lemma add_transaction_run:
  assumes "PrivilegesService_add_privilege_transaction u a w = (r, w1)"
  shows "(\<exists>e. r = Inl e \<and> w1 = w\<lparr>net_log := net_log w @ [PostTransaction u a]\<rparr>)
       \<or> (r = Inr () \<and>
            (\<exists>acct. find (\<lambda>p. p_username p = u) (privilege_db w) = Some acct
               \<and> w1 = w\<lparr>net_log := net_log w @ [PostTransaction u a],
                        history_db := history_db w @
                          [\<lparr>h_id = history_seq w, h_privilege_id = p_id acct,
                            h_ticket_uid = ar_ticket_uid a, h_datetime = ar_datetime a,
                            h_balance_diff = ar_balance_diff a,
                            h_operation_type = ar_operation_type a\<rparr>],
                        history_seq := history_seq w + 1,
                        privilege_db := add_balance (p_id acct)
                          (signed_diff \<lparr>h_id = history_seq w, h_privilege_id = p_id acct,
                            h_ticket_uid = ar_ticket_uid a, h_datetime = ar_datetime a,
                            h_balance_diff = ar_balance_diff a,
                            h_operation_type = ar_operation_type a\<rparr>) (privilege_db w)\<rparr>))"
  using assms
  by (auto simp: PrivilegesService_add_privilege_transaction_def comp_simps
      bonus_add_transaction_def Let_def
      split: option.splits net_fault.splits if_splits)

lemma create_ticket_run:
  assumes "TicketsService_create_new_ticket tid u n price w = (r, w1)"
  shows "((r = Inl ConnectionError \<or> (\<exists>st. r = Inl (HTTPError st)))
            \<and> w1 = w\<lparr>net_log := net_log w @ [PostTicket \<lparr>cr_ticketUid = tid, cr_username = u,
                          cr_flightNumber = n, cr_price = price\<rparr>]\<rparr>)
       \<or> (r = Inr () \<and>
            w1 = w\<lparr>net_log := net_log w @ [PostTicket \<lparr>cr_ticketUid = tid, cr_username = u,
                          cr_flightNumber = n, cr_price = price\<rparr>],
                   ticket_db := ticket_db w @
                     [\<lparr>t_id = ticket_seq w, t_ticket_uid = tid, t_username = u,
                       t_flight_number = n, t_price = price, t_status = ''PAID''\<rparr>],
                   ticket_seq := ticket_seq w + 1\<rparr>)"
  using assms
  by (auto simp: TicketsService_create_new_ticket_def comp_simps
      tickets_create_new_ticket_def Let_def
      split: option.splits net_fault.splits if_splits)

lemma get_flight_run:
  assumes "FlightsService_get_flight_by_number n w = (r, w')"
  shows "\<exists>bs L. w' = w\<lparr>net_log := net_log w @ L, breakers := bs\<rparr>
           \<and> (L = [] \<or> L = [GetFlight n])
           \<and> (\<forall>fi. r = Inr fi \<longrightarrow> L = [GetFlight n] \<and>
                (\<exists>row. find (\<lambda>f. f_flight_number f = n) (flight_db w) = Some row
                       \<and> fi = flight_to_response row))"
proof -
  from assms [unfolded FlightsService_get_flight_by_number_def]
  consider (refused) bs s where "r = Inl (CircuitOpenException s)" "w' = w\<lparr>breakers := bs\<rparr>"
    | (ran) w1 bs where "FlightsService_get_flight_by_number_fn n w = (r, w1)" "w' = w1\<lparr>breakers := bs\<rparr>"
    by (auto dest!: wrap_cb_cases)
  then show ?thesis
  proof cases
    case refused
    then have "w' = w\<lparr>net_log := net_log w @ [], breakers := bs\<rparr>" by simp
    with refused show ?thesis by blast
  next
    case ran
    from get_flight_fn_run [OF ran(1)] ran(2) show ?thesis by blast
  qed
qed

lemma get_privilege_run:
  assumes "PrivilegesService_get_user_privilege u w = (r, w')"
  shows "\<exists>bs L. w' = w\<lparr>net_log := net_log w @ L, breakers := bs\<rparr>
           \<and> (L = [] \<or> L = [GetPrivilege u])
           \<and> (\<forall>a. r = Inr (Some a) \<longrightarrow> find (\<lambda>p. p_username p = u) (privilege_db w) = Some a)"
proof -
  from assms [unfolded PrivilegesService_get_user_privilege_def]
  consider (refused) bs s where "r = Inl (CircuitOpenException s)" "w' = w\<lparr>breakers := bs\<rparr>"
    | (ran) w1 bs where "PrivilegesService_get_user_privilege_fn u w = (r, w1)" "w' = w1\<lparr>breakers := bs\<rparr>"
    by (auto dest!: wrap_cb_cases)
  then show ?thesis
  proof cases
    case refused
    then have "w' = w\<lparr>net_log := net_log w @ [], breakers := bs\<rparr>" by simp
    with refused show ?thesis by blast
  next
    case ran
    from get_privilege_fn_run [OF ran(1)] ran(2) show ?thesis by blast
  qed
qed

lemma then_do_now: "then_do datetime_now f w = f (clock w) w"
  by (simp add: then_do_def datetime_now_def)

lemma then_do_uuid4: "then_do uuid4 f w = f (rand w (draws w)) (w\<lparr>draws := draws w + 1\<rparr>)"
  by (simp add: then_do_def uuid4_def)

lemma ledger_step_run:
  assumes run: "purchase_ledger_step req user fi acct now tid w = (r, w1)"
    and acct: "find (\<lambda>p. p_username p = user) (privilege_db w) = Some acct"
  shows "net_log w1 = net_log w @ map (PostTransaction user)
                     (claimed_ledger_request (rq_paidFromBalance req) acct (fr_price fi) tid now)
       \<and> ticket_db w1 = ticket_db w \<and> ticket_seq w1 = ticket_seq w
       \<and> (\<forall>x. r = Inr x \<longrightarrow>
             x = (claimed_cash (rq_paidFromBalance req) (p_balance acct) (fr_price fi),
                  claimed_bonus (rq_paidFromBalance req) (p_balance acct) (fr_price fi))
             \<and> history_db w1 = history_db w @ map (stored_entry (history_seq w) (p_id acct))
                 (claimed_ledger_request (rq_paidFromBalance req) acct (fr_price fi) tid now))"
proof (cases "rq_paidFromBalance req")
  case True
  note pfb = this
  show ?thesis
  proof (cases "min (p_balance acct) (fr_price fi) > 0")
    case False
    with pfb run have "r = Inr (fr_price fi - min (p_balance acct) (fr_price fi),
                                min (p_balance acct) (fr_price fi))" "w1 = w"
      by (auto simp: purchase_ledger_step_def Let_def return_def)
    with pfb False show ?thesis
      by (simp add: claimed_ledger_request_def claimed_cash_def claimed_bonus_def)
  next
    case pos: True
    let ?a = "\<lparr>ar_privilege_id = p_id acct, ar_ticket_uid = tid, ar_datetime = now,
                ar_balance_diff = min (p_balance acct) (fr_price fi),
                ar_operation_type = ''DEBIT_THE_ACCOUNT''\<rparr>"
    from pfb pos run have
      "then_do (PrivilegesService_add_privilege_transaction user ?a)
         (\<lambda>_. return (fr_price fi - min (p_balance acct) (fr_price fi),
                       min (p_balance acct) (fr_price fi))) w = (r, w1)"
      by (simp add: purchase_ledger_step_def Let_def)
    then show ?thesis
    proof (cases rule: then_doE)
      case (fail e)
      with add_transaction_run [OF fail(1)] pfb pos show ?thesis
        by (auto simp: claimed_ledger_request_def claimed_cash_def claimed_bonus_def)
    next
      case (ok x w2)
      with add_transaction_run [OF ok(1)] acct pfb pos show ?thesis
        by (auto simp: claimed_ledger_request_def claimed_cash_def claimed_bonus_def
            stored_entry_def return_def)
    qed
  qed
next
  case False
  note pfb = this
  let ?a = "\<lparr>ar_privilege_id = p_id acct, ar_ticket_uid = tid, ar_datetime = now,
              ar_balance_diff = fr_price fi div 10,
              ar_operation_type = ''FILL_IN_BALANCE''\<rparr>"
  from pfb run have
    "then_do (PrivilegesService_add_privilege_transaction user ?a)
       (\<lambda>_. return (fr_price fi, 0)) w = (r, w1)"
    by (simp add: purchase_ledger_step_def Let_def)
  then show ?thesis
  proof (cases rule: then_doE)
    case (fail e)
    with add_transaction_run [OF fail(1)] pfb show ?thesis
      by (auto simp: claimed_ledger_request_def claimed_cash_def claimed_bonus_def)
  next
    case (ok x w2)
    with add_transaction_run [OF ok(1)] acct pfb show ?thesis
      by (auto simp: claimed_ledger_request_def claimed_cash_def claimed_bonus_def
          stored_entry_def return_def)
  qed
qed

lemma purchase_response_run:
  assumes "purchase_response req fi now tid cash bonus upd w = (r, w')"
  shows "w' = w
       \<and> (r = Inl (AttributeError ''balance'') \<or> (\<exists>s. r = Inl (ValidationError s))
          \<or> (\<exists>info. r = Inr (Purchased
                \<lparr>pr_ticketUid = tid, pr_flightNumber = rq_flightNumber req,
                 pr_fromAirport = fr_fromAirport fi, pr_toAirport = fr_toAirport fi,
                 pr_date = now, pr_price = fr_price fi, pr_paidByMoney = cash,
                 pr_paidByBonuses = bonus, pr_status = PAID, pr_privilege = info\<rparr>)))"
  using assms
  by (auto simp: purchase_response_def PrivilegeShortInfo_init_def then_do_def return_def raise_def
      split: option.splits)

lemma purchase_after_lookup_run:
  fixes req user fi acct w
  defines "tid \<equiv> rand w (draws w)"
  defines "reqs \<equiv> claimed_ledger_request (rq_paidFromBalance req) acct (fr_price fi) tid (clock w)"
  defines "cash \<equiv> claimed_cash (rq_paidFromBalance req) (p_balance acct) (fr_price fi)"
  defines "bonus \<equiv> claimed_bonus (rq_paidFromBalance req) (p_balance acct) (fr_price fi)"
  defines "post \<equiv> PostTicket \<lparr>cr_ticketUid = tid, cr_username = user,
                                 cr_flightNumber = fr_flightNumber fi, cr_price = cash\<rparr>"
  assumes run: "purchase_after_lookup req user fi acct w = (r, w')"
    and acct: "find (\<lambda>p. p_username p = user) (privilege_db w) = Some acct"
  shows "\<exists>L2 L3. net_log w' = net_log w @ map (PostTransaction user) reqs @ L2 @ L3
          \<and> (L2 = [] \<or> L2 = [GetPrivilege user])
          \<and> (L3 = [] \<or> L3 = [post])
          \<and> (L3 \<noteq> [] \<longrightarrow>
                history_db w' = history_db w @ map (stored_entry (history_seq w) (p_id acct)) reqs)
          \<and> (r = Inl ConnectionError \<or> (\<exists>st. r = Inl (HTTPError st)) \<longrightarrow>
                ticket_db w' = ticket_db w)
          \<and> (\<forall>resp. r = Inr resp \<longrightarrow>
                L3 \<noteq> []
                \<and> ticket_db w' = ticket_db w @
                     [\<lparr>t_id = ticket_seq w, t_ticket_uid = tid, t_username = user,
                       t_flight_number = fr_flightNumber fi, t_price = cash, t_status = ''PAID''\<rparr>]
                \<and> (\<exists>info. resp = Purchased
                      \<lparr>pr_ticketUid = tid, pr_flightNumber = rq_flightNumber req,
                       pr_fromAirport = fr_fromAirport fi, pr_toAirport = fr_toAirport fi,
                       pr_date = clock w, pr_price = fr_price fi, pr_paidByMoney = cash,
                       pr_paidByBonuses = bonus, pr_status = PAID, pr_privilege = info\<rparr>))"
proof -
  let ?w0 = "w\<lparr>draws := draws w + 1\<rparr>"
  let ?rest = "\<lambda>(cash_payment, bonus_payment).
     then_do (PrivilegesService_get_user_privilege user) (\<lambda>updated_privilege.
     then_do (TicketsService_create_new_ticket tid user (fr_flightNumber fi) cash_payment) (\<lambda>_.
       purchase_response req fi (clock w) tid cash_payment bonus_payment updated_privilege))"
  from acct have acct0: "find (\<lambda>p. p_username p = user) (privilege_db ?w0) = Some acct"
    by simp
  from run have "then_do (purchase_ledger_step req user fi acct (clock w) tid) ?rest ?w0 = (r, w')"
    by (simp add: purchase_after_lookup_def then_do_now then_do_uuid4 tid_def)
  then show ?thesis
  proof (cases rule: then_doE)
    case (fail e)
    from ledger_step_run [OF fail(1) acct0] fail(2) show ?thesis
      by (intro exI [of _ "[]"]) (simp add: reqs_def)
  next
    case (ok x w3)
    from ledger_step_run [OF ok(1) acct0] have
      l3: "net_log w3 = net_log w @ map (PostTransaction user) reqs" and
      t3: "ticket_db w3 = ticket_db w" "ticket_seq w3 = ticket_seq w" and
      x: "x = (cash, bonus)" and
      h3: "history_db w3 = history_db w @ map (stored_entry (history_seq w) (p_id acct)) reqs"
      by (simp_all add: reqs_def cash_def bonus_def)
    from ok(2) x have
      "then_do (PrivilegesService_get_user_privilege user) (\<lambda>updated_privilege.
       then_do (TicketsService_create_new_ticket tid user (fr_flightNumber fi) cash) (\<lambda>_.
         purchase_response req fi (clock w) tid cash bonus updated_privilege)) w3 = (r, w')"
      by simp
    then show ?thesis
    proof (cases rule: then_doE)
      case (fail e)
      from get_privilege_run [OF fail(1)] obtain bs L where
        "w' = w3\<lparr>net_log := net_log w3 @ L, breakers := bs\<rparr>" "L = [] \<or> L = [GetPrivilege user]"
        by blast
      with fail(2) l3 t3 show ?thesis
        by (intro exI [of _ L] exI [of _ "[]"]) simp
    next
      case (ok upd w4)
      from get_privilege_run [OF ok(1)] obtain bs L where
        w4: "w4 = w3\<lparr>net_log := net_log w3 @ L, breakers := bs\<rparr>" and
        L: "L = [] \<or> L = [GetPrivilege user]"
        by blast
      from ok(2) show ?thesis
      proof (cases rule: then_doE)
        case (fail e)
        from create_ticket_run [OF fail(1)] fail(2) have
          "w' = w4\<lparr>net_log := net_log w4 @ [post]\<rparr>"
          by (auto simp: post_def)
        with fail(2) w4 L l3 t3 h3 show ?thesis
          by (intro exI [of _ L] exI [of _ "[post]"]) simp
      next
        case (ok u w5)
        from create_ticket_run [OF ok(1)] have
          w5: "w5 = w4\<lparr>net_log := net_log w4 @ [post],
                        ticket_db := ticket_db w4 @
                          [\<lparr>t_id = ticket_seq w4, t_ticket_uid = tid, t_username = user,
                            t_flight_number = fr_flightNumber fi, t_price = cash,
                            t_status = ''PAID''\<rparr>],
                        ticket_seq := ticket_seq w4 + 1\<rparr>"
          by (auto simp: post_def)
        from purchase_response_run [OF ok(2)] have w': "w' = w5" and
          r: "r = Inl (AttributeError ''balance'') \<or> (\<exists>s. r = Inl (ValidationError s))
          \<or> (\<exists>info. r = Inr (Purchased
                \<lparr>pr_ticketUid = tid, pr_flightNumber = rq_flightNumber req,
                 pr_fromAirport = fr_fromAirport fi, pr_toAirport = fr_toAirport fi,
                 pr_date = clock w, pr_price = fr_price fi, pr_paidByMoney = cash,
                 pr_paidByBonuses = bonus, pr_status = PAID, pr_privilege = info\<rparr>))"
          by blast+
        from r w' w5 w4 L l3 t3 h3 show ?thesis
          by (intro exI [of _ L] exI [of _ "[post]"]) auto
      qed
    qed
  qed
qed

lemma purchase_lookups:
  assumes s1: "FlightsService_get_flight_by_number (rq_flightNumber req) w = (Inr fi, w1)"
    and s2: "PrivilegesService_get_user_privilege user w1 = (Inr (Some acct), w2)"
  shows "purchase_ticket req user w = purchase_after_lookup req user fi acct w2"
    and "\<exists>bs. w2 = w\<lparr>net_log := net_log w @ [GetFlight (rq_flightNumber req), GetPrivilege user],
                       breakers := bs\<rparr>"
    and "\<exists>row. find (\<lambda>f. f_flight_number f = rq_flightNumber req) (flight_db w) = Some row
               \<and> fi = flight_to_response row"
    and "find (\<lambda>p. p_username p = user) (privilege_db w) = Some acct"
proof -
  show "purchase_ticket req user w = purchase_after_lookup req user fi acct w2"
    using s1 s2 by (simp add: purchase_ticket_def then_do_def model_truthy_def)
  from get_flight_run [OF s1] obtain bs1 where
    w1: "w1 = w\<lparr>net_log := net_log w @ [GetFlight (rq_flightNumber req)], breakers := bs1\<rparr>"
    and row: "\<exists>row. find (\<lambda>f. f_flight_number f = rq_flightNumber req) (flight_db w) = Some row
               \<and> fi = flight_to_response row"
    by blast
  from get_privilege_run [OF s2] obtain bs2 L where
    w2: "w2 = w1\<lparr>net_log := net_log w1 @ L, breakers := bs2\<rparr>"
    and L: "L = [] \<or> L = [GetPrivilege user]"
    and f: "find (\<lambda>p. p_username p = user) (privilege_db w1) = Some acct"
    by blast
  from s2 [unfolded PrivilegesService_get_user_privilege_def] have "L = [GetPrivilege user]"
  proof -
    from wrap_cb_ok [OF s2 [unfolded PrivilegesService_get_user_privilege_def]]
    obtain w1' where "PrivilegesService_get_user_privilege_fn user w1 = (Inr (Some acct), w1')"
      and "w2 = w1'\<lparr>breakers := (breakers w1')(Privileges_NAME :=
              Some ((breaker_of Privileges_NAME w1)\<lparr>state := CLOSED, failure_count := 0\<rparr>))\<rparr>"
      by blast
    with get_privilege_fn_run [of user w1 "Inr (Some acct)" w1'] w2
    have "net_log w1 @ L = net_log w1 @ [GetPrivilege user]"
      by (metis world.select_convs(5) world.surjective world.update_convs(5) world.update_convs(6))
    then show ?thesis by simp
  qed
  with w1 w2 show "\<exists>bs. w2 = w\<lparr>net_log := net_log w @ [GetFlight (rq_flightNumber req), GetPrivilege user],
                       breakers := bs\<rparr>"
    by (intro exI [of _ bs2]) simp
  from row show "\<exists>row. find (\<lambda>f. f_flight_number f = rq_flightNumber req) (flight_db w) = Some row
               \<and> fi = flight_to_response row" .
  from f w1 show "find (\<lambda>p. p_username p = user) (privilege_db w) = Some acct" by simp
qed

text \<open>
  Claim C1. Take a purchase whose flight lookup returned \<open>flight\<close> and whose account lookup
  returned \<open>account\<close> (they are the catalog's row and the ledger's account). With
  pay-from-balance, the bonus payment is the minimum of the account's balance and the
  flight's price, the cash payment is the price less the bonus payment, and the ledger
  appends sent are one DEBIT_THE_ACCOUNT request of the bonus payment if that is positive,
  none otherwise. Without pay-from-balance, the cash payment is the price, the bonus payment
  is 0, and exactly one FILL_IN_BALANCE request of the cash payment divided by 10 (rounded
  down) is sent. The requests carry the identifier generated for the ticket. When the
  purchase returns, its response shows that split and identifier, the ticket was created at
  the cash payment, and the ledger has gained exactly the entries of those requests.
\<close>

theorem purchase_payment_split:
  assumes s1: "FlightsService_get_flight_by_number (rq_flightNumber req) w = (Inr flight, w1)"
      and s2: "PrivilegesService_get_user_privilege user w1 = (Inr (Some account), w2)"
      and run: "purchase_ticket req user w = (r, w')"
  shows "let bonus_payment = (if rq_paidFromBalance req
                              then min (p_balance account) (fr_price flight) else 0);
             cash_payment = fr_price flight - bonus_payment;
             ticket_id = rand w (draws w)
         in (\<exists>row. find (\<lambda>f. f_flight_number f = rq_flightNumber req) (flight_db w) = Some row
                    \<and> fr_price flight = f_price row)
          \<and> find (\<lambda>p. p_username p = user) (privilege_db w) = Some account
          \<and> (rq_paidFromBalance req \<longrightarrow>
                filter is_ledger_append (issued w w') =
                  (if bonus_payment > 0
                   then [PostTransaction user
                           \<lparr>ar_privilege_id = p_id account, ar_ticket_uid = ticket_id,
                            ar_datetime = clock w, ar_balance_diff = bonus_payment,
                            ar_operation_type = ''DEBIT_THE_ACCOUNT''\<rparr>]
                   else []))
          \<and> (\<not> rq_paidFromBalance req \<longrightarrow>
                cash_payment = fr_price flight \<and> bonus_payment = 0
                \<and> filter is_ledger_append (issued w w') =
                    [PostTransaction user
                       \<lparr>ar_privilege_id = p_id account, ar_ticket_uid = ticket_id,
                        ar_datetime = clock w, ar_balance_diff = cash_payment div 10,
                        ar_operation_type = ''FILL_IN_BALANCE''\<rparr>])
          \<and> (\<forall>resp. r = Inr resp \<longrightarrow>
                (\<exists>p. resp = Purchased p \<and> pr_ticketUid p = ticket_id
                      \<and> pr_price p = fr_price flight
                      \<and> pr_paidByBonuses p = bonus_payment \<and> pr_paidByMoney p = cash_payment)
                \<and> PostTicket \<lparr>cr_ticketUid = ticket_id, cr_username = user,
                               cr_flightNumber = fr_flightNumber flight, cr_price = cash_payment\<rparr>
                    \<in> set (issued w w')
                \<and> take (length (history_db w)) (history_db w') = history_db w
                \<and> map (\<lambda>h. (h_operation_type h, h_balance_diff h, h_ticket_uid h))
                      (drop (length (history_db w)) (history_db w')) =
                    (if rq_paidFromBalance req
                     then (if bonus_payment > 0
                           then [(''DEBIT_THE_ACCOUNT'', bonus_payment, ticket_id)] else [])
                     else [(''FILL_IN_BALANCE'', cash_payment div 10, ticket_id)]))"
proof -
  note lk = purchase_lookups [OF s1 s2]
  from lk(2) obtain bs where
    w2: "w2 = w\<lparr>net_log := net_log w @ [GetFlight (rq_flightNumber req), GetPrivilege user],
                 breakers := bs\<rparr>" by blast
  from lk(4) w2 have acct2: "find (\<lambda>p. p_username p = user) (privilege_db w2) = Some account"
    by simp
  from run lk(1) have run2: "purchase_after_lookup req user flight account w2 = (r, w')"
    by simp
  from purchase_after_lookup_run [OF run2 acct2] obtain L2 L3 where
    lg: "net_log w' = net_log w2 @ map (PostTransaction user)
           (claimed_ledger_request (rq_paidFromBalance req) account (fr_price flight)
              (rand w2 (draws w2)) (clock w2)) @ L2 @ L3" and
    L2: "L2 = [] \<or> L2 = [GetPrivilege user]" and
    L3: "L3 = [] \<or> L3 = [PostTicket \<lparr>cr_ticketUid = rand w2 (draws w2), cr_username = user,
                 cr_flightNumber = fr_flightNumber flight,
                 cr_price = claimed_cash (rq_paidFromBalance req) (p_balance account) (fr_price flight)\<rparr>]" and
    hd: "L3 \<noteq> [] \<longrightarrow>
                history_db w' = history_db w2 @ map (stored_entry (history_seq w2) (p_id account))
                  (claimed_ledger_request (rq_paidFromBalance req) account (fr_price flight)
                     (rand w2 (draws w2)) (clock w2))" and
    ok: "\<forall>resp. r = Inr resp \<longrightarrow>
                L3 \<noteq> []
                \<and> (\<exists>info. resp = Purchased
                      \<lparr>pr_ticketUid = rand w2 (draws w2), pr_flightNumber = rq_flightNumber req,
                       pr_fromAirport = fr_fromAirport flight, pr_toAirport = fr_toAirport flight,
                       pr_date = clock w2, pr_price = fr_price flight,
                       pr_paidByMoney = claimed_cash (rq_paidFromBalance req) (p_balance account) (fr_price flight),
                       pr_paidByBonuses = claimed_bonus (rq_paidFromBalance req) (p_balance account) (fr_price flight),
                       pr_status = PAID, pr_privilege = info\<rparr>)"
    by blast
  have iss: "issued w w' = [GetFlight (rq_flightNumber req), GetPrivilege user]
       @ map (PostTransaction user)
           (claimed_ledger_request (rq_paidFromBalance req) account (fr_price flight)
              (rand w (draws w)) (clock w)) @ L2 @ L3"
    using lg by (simp add: issued_def w2)
  have f23: "filter is_ledger_append (L2 @ L3) = []"
    using L2 L3 by auto
  have fl: "filter is_ledger_append (issued w w') = map (PostTransaction user)
           (claimed_ledger_request (rq_paidFromBalance req) account (fr_price flight)
              (rand w (draws w)) (clock w))"
    using f23 by (simp add: iss filter_map comp_def del: filter_append)
       (simp add: claimed_ledger_request_def)
  from lk(3) have row: "\<exists>row. find (\<lambda>f. f_flight_number f = rq_flightNumber req) (flight_db w) = Some row
                    \<and> fr_price flight = f_price row"
    by (auto simp: flight_to_response_def)
  have okk: "\<forall>resp. r = Inr resp \<longrightarrow>
       (\<exists>p. resp = Purchased p \<and> pr_ticketUid p = rand w (draws w)
             \<and> pr_price p = fr_price flight
             \<and> pr_paidByBonuses p = claimed_bonus (rq_paidFromBalance req) (p_balance account) (fr_price flight)
             \<and> pr_paidByMoney p = claimed_cash (rq_paidFromBalance req) (p_balance account) (fr_price flight))
       \<and> PostTicket \<lparr>cr_ticketUid = rand w (draws w), cr_username = user,
                      cr_flightNumber = fr_flightNumber flight,
                      cr_price = claimed_cash (rq_paidFromBalance req) (p_balance account) (fr_price flight)\<rparr>
            \<in> set (issued w w')"
    using ok L3 by (auto simp: iss w2)
  have hist: "\<forall>resp. r = Inr resp \<longrightarrow>
       take (length (history_db w)) (history_db w') = history_db w
       \<and> map (\<lambda>h. (h_operation_type h, h_balance_diff h, h_ticket_uid h))
             (drop (length (history_db w)) (history_db w')) =
           map (\<lambda>a. (ar_operation_type a, ar_balance_diff a, ar_ticket_uid a))
             (claimed_ledger_request (rq_paidFromBalance req) account (fr_price flight)
                (rand w (draws w)) (clock w))"
    using ok hd by (auto simp: w2 stored_entry_def comp_def)
  show ?thesis
    unfolding Let_def
    using row lk(4) fl okk hist
    by (simp add: claimed_ledger_request_def claimed_bonus_def claimed_cash_def)
qed

lemmas gateway_simps = purchase_ticket_def purchase_after_lookup_def purchase_ledger_step_def
  purchase_response_def PrivilegeShortInfo_init_def PrivilegeStatus_validate_def model_truthy_def
  uuid4_def datetime_now_def

lemma purchase_world0_from_balance:
  "purchase_ticket request_from_balance ''bob'' world0 =
     (Inr (Purchased
        \<lparr>pr_ticketUid = 7, pr_flightNumber = ''AF1'', pr_fromAirport = ''Moscow SVO'',
         pr_toAirport = ''Piter LED'', pr_date = 100, pr_price = 1000, pr_paidByMoney = 700,
         pr_paidByBonuses = 300, pr_status = PAID,
         pr_privilege = \<lparr>ps_balance = 0, ps_status = GOLD\<rparr>\<rparr>),
      snd (purchase_ticket request_from_balance ''bob'' world0))"
  by (simp add: gateway_simps client_simps server_simps comp_simps cb_simps name_simps
      world0_def request_from_balance_def airport_a_def airport_b_def)

lemma purchase_world0_cash:
  "purchase_ticket request_cash ''bob'' world0 =
     (Inr (Purchased
        \<lparr>pr_ticketUid = 7, pr_flightNumber = ''AF1'', pr_fromAirport = ''Moscow SVO'',
         pr_toAirport = ''Piter LED'', pr_date = 100, pr_price = 1000, pr_paidByMoney = 1000,
         pr_paidByBonuses = 0, pr_status = PAID,
         pr_privilege = \<lparr>ps_balance = 400, ps_status = GOLD\<rparr>\<rparr>),
      snd (purchase_ticket request_cash ''bob'' world0))"
  by (simp add: gateway_simps client_simps server_simps comp_simps cb_simps name_simps
      world0_def request_cash_def airport_a_def airport_b_def)

lemma lookups_world0:
  "FlightsService_get_flight_by_number ''AF1'' world0 =
     (Inr \<lparr>fr_flightNumber = ''AF1'', fr_fromAirport = ''Moscow SVO'', fr_toAirport = ''Piter LED'',
           fr_date = 50, fr_price = 1000\<rparr>,
      snd (FlightsService_get_flight_by_number ''AF1'' world0))"
  "PrivilegesService_get_user_privilege ''bob'' (snd (FlightsService_get_flight_by_number ''AF1'' world0)) =
     (Inr (Some \<lparr>p_id = 1, p_username = ''bob'', p_status = ''GOLD'', p_balance = 300\<rparr>),
      snd (PrivilegesService_get_user_privilege ''bob''
             (snd (FlightsService_get_flight_by_number ''AF1'' world0))))"
  by (simp_all add: client_simps server_simps comp_simps cb_simps name_simps
      world0_def airport_a_def airport_b_def)

theorem purchase_payment_split_witness:
  "filter is_ledger_append (issued world0 (snd (purchase_ticket request_from_balance ''bob'' world0)))
     = [PostTransaction ''bob''
          \<lparr>ar_privilege_id = 1, ar_ticket_uid = 7, ar_datetime = 100, ar_balance_diff = 300,
           ar_operation_type = ''DEBIT_THE_ACCOUNT''\<rparr>]
   \<and> filter is_ledger_append (issued world0 (snd (purchase_ticket request_cash ''bob'' world0)))
     = [PostTransaction ''bob''
          \<lparr>ar_privilege_id = 1, ar_ticket_uid = 7, ar_datetime = 100, ar_balance_diff = 100,
           ar_operation_type = ''FILL_IN_BALANCE''\<rparr>]
   \<and> map (\<lambda>h. (h_operation_type h, h_balance_diff h, h_ticket_uid h))
        (drop 1 (history_db (snd (purchase_ticket request_cash ''bob'' world0))))
     = [(''FILL_IN_BALANCE'', 100, 7)]"
proof -
  have a1: "FlightsService_get_flight_by_number (rq_flightNumber request_from_balance) world0 =
     (Inr \<lparr>fr_flightNumber = ''AF1'', fr_fromAirport = ''Moscow SVO'', fr_toAirport = ''Piter LED'',
           fr_date = 50, fr_price = 1000\<rparr>,
      snd (FlightsService_get_flight_by_number ''AF1'' world0))"
    using lookups_world0(1) by (simp add: request_from_balance_def)
  have b1: "FlightsService_get_flight_by_number (rq_flightNumber request_cash) world0 =
     (Inr \<lparr>fr_flightNumber = ''AF1'', fr_fromAirport = ''Moscow SVO'', fr_toAirport = ''Piter LED'',
           fr_date = 50, fr_price = 1000\<rparr>,
      snd (FlightsService_get_flight_by_number ''AF1'' world0))"
    using lookups_world0(1) by (simp add: request_cash_def)
  note a = purchase_payment_split [OF a1 lookups_world0(2) purchase_world0_from_balance]
  note b = purchase_payment_split [OF b1 lookups_world0(2) purchase_world0_cash]
  have wa: "rand world0 (draws world0) = 7" "clock world0 = 100" "length (history_db world0) = 1"
    by (simp_all add: world0_def)
  from a have "filter is_ledger_append
       (issued world0 (snd (purchase_ticket request_from_balance ''bob'' world0)))
     = [PostTransaction ''bob''
          \<lparr>ar_privilege_id = 1, ar_ticket_uid = 7, ar_datetime = 100, ar_balance_diff = 300,
           ar_operation_type = ''DEBIT_THE_ACCOUNT''\<rparr>]"
    by (simp add: Let_def wa request_from_balance_def)
  moreover from b have "filter is_ledger_append
       (issued world0 (snd (purchase_ticket request_cash ''bob'' world0)))
     = [PostTransaction ''bob''
          \<lparr>ar_privilege_id = 1, ar_ticket_uid = 7, ar_datetime = 100, ar_balance_diff = 100,
           ar_operation_type = ''FILL_IN_BALANCE''\<rparr>]
     \<and> map (\<lambda>h. (h_operation_type h, h_balance_diff h, h_ticket_uid h))
        (drop 1 (history_db (snd (purchase_ticket request_cash ''bob'' world0))))
     = [(''FILL_IN_BALANCE'', 100, 7)]"
    by (simp add: Let_def wa request_cash_def)
  ultimately show ?thesis by simp
qed

lemma purchase_ticket_cases:
  assumes run: "purchase_ticket req user w = (r, w')"
  obtains (early) L where "net_log w' = net_log w @ L"
      "set L \<subseteq> {GetFlight (rq_flightNumber req), GetPrivilege user}"
      "ticket_db w' = ticket_db w" "history_db w' = history_db w"
    | (saga) fi acct w1 w2 where
      "FlightsService_get_flight_by_number (rq_flightNumber req) w = (Inr fi, w1)"
      "PrivilegesService_get_user_privilege user w1 = (Inr (Some acct), w2)"
proof -
  from run [unfolded purchase_ticket_def] show ?thesis
  proof (cases rule: then_doE)
    case (fail e)
    from get_flight_run [OF fail(1)] obtain bs L where
      "w' = w\<lparr>net_log := net_log w @ L, breakers := bs\<rparr>" "L = [] \<or> L = [GetFlight (rq_flightNumber req)]"
      by blast
    then show ?thesis by (intro early [of L]) auto
  next
    case (ok fi w1)
    from get_flight_run [OF ok(1)] obtain bs where
      w1: "w1 = w\<lparr>net_log := net_log w @ [GetFlight (rq_flightNumber req)], breakers := bs\<rparr>"
      by blast
    from ok(2) have
      "then_do (PrivilegesService_get_user_privilege user) (\<lambda>user_privilege.
           case user_privilege of
             None \<Rightarrow> return (ValidationFailed \<lparr>ve_message = ''User does not exist'', ve_errors = []\<rparr>)
           | Some up \<Rightarrow> purchase_after_lookup req user fi up) w1 = (r, w')"
      by (simp add: model_truthy_def)
    then show ?thesis
    proof (cases rule: then_doE)
      case (fail e)
      from get_privilege_run [OF fail(1)] obtain bs2 L where
        "w' = w1\<lparr>net_log := net_log w1 @ L, breakers := bs2\<rparr>" "L = [] \<or> L = [GetPrivilege user]"
        by blast
      with w1 show ?thesis
        by (intro early [of "GetFlight (rq_flightNumber req) # L"]) auto
    next
      case inner: (ok up w2)
      show ?thesis
      proof (cases up)
        case None
        from get_privilege_run [OF inner(1)] obtain bs2 L where
          "w2 = w1\<lparr>net_log := net_log w1 @ L, breakers := bs2\<rparr>" "L = [] \<or> L = [GetPrivilege user]"
          by blast
        moreover from inner(2) None have "w' = w2" by (simp add: return_def)
        ultimately show ?thesis using w1
          by (intro early [of "GetFlight (rq_flightNumber req) # L"]) auto
      next
        case (Some acct)
        with ok(1) inner(1) show ?thesis by (intro saga) auto
      qed
    qed
  qed
qed

lemma ordered_split:
  assumes "\<forall>q\<in>set A. \<not> is_ticket_write q" "\<forall>q\<in>set B. \<not> is_ledger_append q"
  shows "\<forall>i j. i < length (A @ B) \<and> j < length (A @ B)
            \<and> is_ticket_write ((A @ B) ! i) \<and> is_ledger_append ((A @ B) ! j) \<longrightarrow> j < i"
proof (intro allI impI)
  fix i j
  assume a: "i < length (A @ B) \<and> j < length (A @ B)
            \<and> is_ticket_write ((A @ B) ! i) \<and> is_ledger_append ((A @ B) ! j)"
  have "\<not> i < length A"
  proof
    assume "i < length A"
    with a assms(1) show False by (auto simp: nth_append)
  qed
  moreover have "j < length A"
  proof (rule ccontr)
    assume "\<not> j < length A"
    with a have "(A @ B) ! j \<in> set B" by (auto simp: nth_append)
    with a assms(2) show False by auto
  qed
  ultimately show "j < i" by simp
qed

text \<open>
  Claim C4. In every run of the purchase, the requests it sends are appended to the log in
  order, every ledger append comes strictly before every ticket write, and no ledger delete
  is ever sent: the purchase has no compensating action. If the ticket write was sent and
  failed (connection failure or error status), no ticket was stored, and a ledger entry
  appended by this purchase is still in the ledger at the end.
\<close>

theorem purchase_ledger_before_ticket:
  assumes run: "purchase_ticket req user w = (r, w')"
  shows "net_log w' = net_log w @ issued w w'
       \<and> (\<forall>i j. i < length (issued w w') \<and> j < length (issued w w')
              \<and> is_ticket_write (issued w w' ! i) \<and> is_ledger_append (issued w w' ! j)
              \<longrightarrow> j < i)
       \<and> (\<forall>q\<in>set (issued w w'). \<not> is_ledger_delete q)
       \<and> ((\<exists>q\<in>set (issued w w'). is_ticket_write q)
            \<and> (r = Inl ConnectionError \<or> (\<exists>st. r = Inl (HTTPError st))) \<longrightarrow>
           ticket_db w' = ticket_db w
           \<and> (\<forall>u a. PostTransaction u a \<in> set (issued w w') \<longrightarrow>
                 history_db w' = history_db w @ [stored_entry (history_seq w) (ar_privilege_id a) a]))"
  using run
proof (cases rule: purchase_ticket_cases)
  case (early L)
  then have iss: "issued w w' = L" by (simp add: issued_def)
  from early(2) have none: "\<forall>q\<in>set L. \<not> is_ticket_write q \<and> \<not> is_ledger_append q \<and> \<not> is_ledger_delete q"
    by auto
  then have "\<forall>i j. i < length L \<and> j < length L
              \<and> is_ticket_write (L ! i) \<and> is_ledger_append (L ! j) \<longrightarrow> j < i"
    by (meson nth_mem)
  with none early(1) show ?thesis
    unfolding iss by blast
next
  case (saga fi acct w1 w2)
  note lk = purchase_lookups [OF saga]
  from lk(2) obtain bs where
    w2: "w2 = w\<lparr>net_log := net_log w @ [GetFlight (rq_flightNumber req), GetPrivilege user],
                 breakers := bs\<rparr>" by blast
  from lk(4) w2 have acct2: "find (\<lambda>p. p_username p = user) (privilege_db w2) = Some acct"
    by simp
  from run lk(1) have run2: "purchase_after_lookup req user fi acct w2 = (r, w')"
    by simp
  define reqs where "reqs = claimed_ledger_request (rq_paidFromBalance req) acct (fr_price fi)
              (rand w (draws w)) (clock w)"
  from purchase_after_lookup_run [OF run2 acct2] obtain L2 L3 where
    lg: "net_log w' = net_log w2 @ map (PostTransaction user) reqs @ L2 @ L3" and
    L2: "L2 = [] \<or> L2 = [GetPrivilege user]" and
    L3: "L3 = [] \<or> (\<exists>cr. L3 = [PostTicket cr])" and
    hd: "L3 \<noteq> [] \<longrightarrow>
                history_db w' = history_db w @ map (stored_entry (history_seq w) (p_id acct)) reqs" and
    td: "r = Inl ConnectionError \<or> (\<exists>st. r = Inl (HTTPError st)) \<longrightarrow> ticket_db w' = ticket_db w"
    unfolding reqs_def by (auto simp: w2)
  let ?A = "[GetFlight (rq_flightNumber req), GetPrivilege user] @ map (PostTransaction user) reqs @ L2"
  have iss: "issued w w' = ?A @ L3"
    using lg by (simp add: issued_def w2)
  have A: "\<forall>q\<in>set ?A. \<not> is_ticket_write q" using L2 by auto
  have B: "\<forall>q\<in>set L3. \<not> is_ledger_append q" using L3 by auto
  have nodel: "\<forall>q\<in>set (?A @ L3). \<not> is_ledger_delete q" using L2 L3 by auto
  have reqs: "reqs = [] \<or> (\<exists>a. reqs = [a] \<and> ar_privilege_id a = p_id acct)"
    by (simp add: reqs_def claimed_ledger_request_def)
  have fail: "(\<exists>q\<in>set (?A @ L3). is_ticket_write q) \<longrightarrow>
           (\<forall>u a. PostTransaction u a \<in> set (?A @ L3) \<longrightarrow>
                 history_db w' = history_db w @ [stored_entry (history_seq w) (ar_privilege_id a) a])"
  proof (intro impI allI)
    fix u a
    assume tw: "\<exists>q\<in>set (?A @ L3). is_ticket_write q" and pa: "PostTransaction u a \<in> set (?A @ L3)"
    from tw A have "L3 \<noteq> []" by auto
    with hd have h: "history_db w' = history_db w @ map (stored_entry (history_seq w) (p_id acct)) reqs"
      by simp
    from pa L2 L3 have "a \<in> set reqs" by auto
    with reqs have "reqs = [a]" "ar_privilege_id a = p_id acct" by auto
    with h show "history_db w' = history_db w @ [stored_entry (history_seq w) (ar_privilege_id a) a]"
      by simp
  qed
  from lg have "net_log w' = net_log w @ ?A @ L3" by (simp add: w2)
  with ordered_split [OF A B] nodel fail td show ?thesis
    unfolding iss by blast
qed

lemma purchase_ticket_down:
  "fst (purchase_ticket request_from_balance ''bob'' world_ticket_down) = Inl ConnectionError"
  "net_log (snd (purchase_ticket request_from_balance ''bob'' world_ticket_down)) =
     [GetFlight ''AF1'', GetPrivilege ''bob'',
      PostTransaction ''bob''
        \<lparr>ar_privilege_id = 1, ar_ticket_uid = 7, ar_datetime = 100, ar_balance_diff = 300,
         ar_operation_type = ''DEBIT_THE_ACCOUNT''\<rparr>,
      GetPrivilege ''bob'',
      PostTicket \<lparr>cr_ticketUid = 7, cr_username = ''bob'', cr_flightNumber = ''AF1'', cr_price = 700\<rparr>]"
  by (simp_all add: gateway_simps client_simps server_simps comp_simps cb_simps name_simps
      world_ticket_down_def world0_def request_from_balance_def airport_a_def airport_b_def)

theorem purchase_ledger_before_ticket_witness:
  "fst (purchase_ticket request_from_balance ''bob'' world_ticket_down) = Inl ConnectionError
   \<and> ticket_db (snd (purchase_ticket request_from_balance ''bob'' world_ticket_down))
       = ticket_db world_ticket_down
   \<and> history_db (snd (purchase_ticket request_from_balance ''bob'' world_ticket_down))
       = history_db world_ticket_down @
           [\<lparr>h_id = 2, h_privilege_id = 1, h_ticket_uid = 7, h_datetime = 100,
             h_balance_diff = 300, h_operation_type = ''DEBIT_THE_ACCOUNT''\<rparr>]
   \<and> filter is_ledger_delete
         (issued world_ticket_down
            (snd (purchase_ticket request_from_balance ''bob'' world_ticket_down))) = []"
proof -
  have run: "purchase_ticket request_from_balance ''bob'' world_ticket_down
       = (Inl ConnectionError, snd (purchase_ticket request_from_balance ''bob'' world_ticket_down))"
    using purchase_ticket_down(1) by (metis prod.collapse)
  have iss: "issued world_ticket_down
               (snd (purchase_ticket request_from_balance ''bob'' world_ticket_down)) =
     [GetFlight ''AF1'', GetPrivilege ''bob'',
      PostTransaction ''bob''
        \<lparr>ar_privilege_id = 1, ar_ticket_uid = 7, ar_datetime = 100, ar_balance_diff = 300,
         ar_operation_type = ''DEBIT_THE_ACCOUNT''\<rparr>,
      GetPrivilege ''bob'',
      PostTicket \<lparr>cr_ticketUid = 7, cr_username = ''bob'', cr_flightNumber = ''AF1'', cr_price = 700\<rparr>]"
    by (simp add: issued_def purchase_ticket_down(2)) (simp add: world_ticket_down_def world0_def)
  have hs: "history_seq world_ticket_down = 2"
    by (simp add: world_ticket_down_def world0_def)
  from purchase_ledger_before_ticket [OF run] show ?thesis
    unfolding iss by (simp add: purchase_ticket_down(1) stored_entry_def hs)
qed

section \<open>The three defects in general\<close>

text \<open>
  The flight lookup raises on every 404 that reaches it, whatever the world; the three other
  lookups return \<open>None\<close> on theirs.
\<close>

lemma flight_lookup_404_raises_always:
  assumes "\<not> breaker_open Flights_NAME w" "deployed_policy Flights_NAME w"
    and "outage w (length (net_log w)) = None"
    and "find (\<lambda>f. f_flight_number f = flight_number) (flight_db w) = None"
  shows "fst (FlightsService_get_flight_by_number flight_number w) = Inl (HTTPError 404)"
  using assms
  by (auto simp: FlightsService_get_flight_by_number_def FlightsService_get_flight_by_number_fn_def
      breaker_open_def deployed_policy_def comp_simps cb_simps flights_get_flight_by_number_def
      split: option.splits)

lemma sibling_lookups_404_not_found:
  assumes "outage w (length (net_log w)) = None"
  shows "find (\<lambda>t. t_ticket_uid t = ticket_uid) (ticket_db w) = None \<Longrightarrow>
           fst (TicketsService_get_ticket_by_uid_fn ticket_uid w) = Inr None"
    and "find (\<lambda>p. p_username p = username) (privilege_db w) = None \<Longrightarrow>
           fst (PrivilegesService_get_user_privilege_fn username w) = Inr None"
    and "find_transaction username ticket_uid w = None \<Longrightarrow>
           fst (PrivilegesService_get_user_privilege_transaction_fn username ticket_uid w) = Inr None"
  using assms
  by (auto simp: TicketsService_get_ticket_by_uid_fn_def PrivilegesService_get_user_privilege_fn_def
      PrivilegesService_get_user_privilege_transaction_fn_def comp_simps
      tickets_get_ticket_details_def bonus_get_privilege_def bonus_get_transaction_def
      find_transaction_def split: option.splits)

text \<open>
  While the loyalty breaker refuses calls, the profile view never returns a response; while
  only the ticket breaker refuses calls, it returns the account with an empty ticket list.
\<close>

lemma profile_never_answers_when_loyalty_open:
  assumes "breaker_open Privileges_NAME w"
  shows "\<exists>e. fst (get_current_user_profile x_user_name w) = Inl e"
proof -
  from assms have "PrivilegesService_get_user_privilege x_user_name w
                     = (Inl (CircuitOpenException Privileges_NAME), w)"
    by (simp add: PrivilegesService_get_user_privilege_def wrap_cb_open)
  then have "get_current_user_profile x_user_name w = profile_after_privilege x_user_name None w"
    by (simp add: get_current_user_profile_def)
  then show ?thesis
    by (auto simp: profile_after_privilege_def then_do_def UserInfoResponse_init_def raise_def
        split: prod.splits sum.splits)
qed

lemma profile_degrades_when_tickets_open:
  assumes "PrivilegesService_get_user_privilege x_user_name w = (Inr (Some up), w1)"
    and "breaker_open Tickets_NAME w1"
    and "PrivilegeStatus_validate (p_status up) = Some st"
  shows "get_current_user_profile x_user_name w =
           (Inr (UserInfo \<lparr>ui_tickets = [],
                           ui_privilege = \<lparr>ps_balance = p_balance up, ps_status = st\<rparr>\<rparr>), w1)"
proof -
  from assms(2) have "TicketsService_get_user_tickets x_user_name w1
                        = (Inl (CircuitOpenException Tickets_NAME), w1)"
    by (simp add: TicketsService_get_user_tickets_def wrap_cb_open)
  with assms(1,3) show ?thesis
    by (simp add: get_current_user_profile_def profile_after_privilege_def then_do_def
        try_except_CircuitOpen_def return_def UserInfoResponse_init_def PrivilegeShortInfo_init_def)
qed

text \<open>
  The retrying cancel returns in every world: with AttributeError when its deadline lies
  ahead, at once and with no effect otherwise. It never sends a request.
\<close>

lemma cancel_with_retry_always:
  "cancel_with_retry x_user_name ticket_uid max_seconds interval w =
     (if 0 < max_seconds
      then Some (Inl (AttributeError ''get_user_privelge_transaction''), w)
      else Some (Inr (), w))"
  by (simp add: cancel_with_retry_def retry_loop.simps retry_step_def retry_body_def
      call_lookup_method_def PrivilegesService_getattr_def comp_simps)

end
